theory Spec2Isabelle
  imports Complex_Main
begin

section \<open>Shared data model\<close>

text \<open>
  Tensors of floats are modelled over the reals: a 1-D tensor is a \<open>real list\<close>, a 2-D
  tensor (batch x columns) a list of rows.  Python exceptions are values of \<open>error\<close>;
  \<open>NonFinite\<close> is not an exception: it marks a float result that is inf or nan (a division
  by zero), which has no real value.
\<close>

datatype error = DimensionMismatch | IndexOutOfRange | ArityMismatch | NonFinite | KeyMismatch
  | NegativeDimension | ZeroDivision

type_synonym range = "real \<times> real"

record config =
  dpos :: real
  drot :: real
  action_dim :: nat
  seq_len :: nat
  vision_channels :: nat
  vision_size :: nat
  force_dim :: nat
  proprio_dim :: nat
  num_data_gen_envs :: nat
  max_force :: real
  discount :: real
  tau :: real
  lr_decay :: real
  pretraining_steps :: int
  training_steps :: int
  checkpoint_interval :: int
  eval_interval :: int
  lr_decay_interval :: int
  save_model :: bool

definition bindE :: "error + 'a \<Rightarrow> ('a \<Rightarrow> error + 'b) \<Rightarrow> error + 'b" where
  "bindE m f = (case m of Inl e \<Rightarrow> Inl e | Inr x \<Rightarrow> f x)"

section \<open>Agent: action ranges (agent.py, lines 21-25)\<close>

definition p_range :: "config \<Rightarrow> range" where
  "p_range cfg = (0, 1)"

definition dx_range :: "config \<Rightarrow> range" where
  "dx_range cfg = (- dpos cfg, dpos cfg)"

definition dy_range :: "config \<Rightarrow> range" where
  "dy_range cfg = (- dpos cfg, dpos cfg)"

definition dz_range :: "config \<Rightarrow> range" where
  "dz_range cfg = (- dpos cfg, dpos cfg)"

definition dtheta_range :: "config \<Rightarrow> range" where
  "dtheta_range cfg = (- drot cfg, drot cfg)"

section \<open>Agent: decodeActions, getUnscaledActions, convertPlanAction\<close>

text \<open>\<open>torch.stack([a, b, c, d, e], dim=1)\<close> of five 1-D tensors: all must have one size.\<close>

definition stack5 ::
  "real list \<Rightarrow> real list \<Rightarrow> real list \<Rightarrow> real list \<Rightarrow> real list \<Rightarrow> error + real list list" where
  "stack5 a b c d e =
     (if length b = length a \<and> length c = length a \<and> length d = length a \<and> length e = length a
      then Inr (map (\<lambda>i. [a ! i, b ! i, c ! i, d ! i, e ! i]) [0..<length a])
      else Inl DimensionMismatch)"

text \<open>The expression \<open>0.5 * (unscaled + 1) * (range[1] - range[0]) + range[0]\<close>, which
  \<open>decodeActions\<close> writes out once per dimension: on one element, and elementwise on a
  1-D tensor.\<close>

definition scaleValue :: "real \<Rightarrow> range \<Rightarrow> real" where
  "scaleValue u r = 0.5 * (u + 1) * (snd r - fst r) + fst r"

definition scaleAction :: "real list \<Rightarrow> range \<Rightarrow> real list" where
  "scaleAction unscaled r = map (\<lambda>u. scaleValue u r) unscaled"

definition decodeActions ::
  "config \<Rightarrow> real list \<Rightarrow> real list \<Rightarrow> real list \<Rightarrow> real list \<Rightarrow> real list
     \<Rightarrow> error + (real list list \<times> real list list)" where
  "decodeActions cfg unscaled_p unscaled_dx unscaled_dy unscaled_dz unscaled_dtheta =
     (let p = scaleAction unscaled_p (p_range cfg);
          dx = scaleAction unscaled_dx (dx_range cfg);
          dy = scaleAction unscaled_dy (dy_range cfg);
          dz = scaleAction unscaled_dz (dz_range cfg);
          dtheta = scaleAction unscaled_dtheta (dtheta_range cfg)
      in bindE (stack5 p dx dy dz dtheta) (\<lambda>actions.
         bindE (stack5 unscaled_p unscaled_dx unscaled_dy unscaled_dz unscaled_dtheta)
           (\<lambda>unscaled_actions. Inr (unscaled_actions, actions))))"

text \<open>\<open>2 * (action - range[0]) / (range[1] - range[0]) - 1\<close>: on one element, and on a
  1-D tensor.  With \<open>range[1] = range[0]\<close> the float division gives inf or nan for every
  element.\<close>

definition unscaleValue :: "real \<Rightarrow> range \<Rightarrow> real" where
  "unscaleValue a r = 2 * (a - fst r) / (snd r - fst r) - 1"

definition getUnscaledActions :: "real list \<Rightarrow> range \<Rightarrow> error + real list" where
  "getUnscaledActions action r =
     (if snd r = fst r \<and> action \<noteq> [] then Inl NonFinite
      else Inr (map (\<lambda>a. unscaleValue a r) action))"

text \<open>\<open>Tensor.clamp(min, max)\<close> is \<open>min(max(x, min), max)\<close>.\<close>

definition clamp :: "real \<Rightarrow> range \<Rightarrow> real" where
  "clamp x r = min (max x (fst r)) (snd r)"

text \<open>\<open>plan_action[:, i]\<close>: column \<open>i\<close> of a 2-D tensor, an IndexError when it has fewer
  columns.\<close>

definition column :: "real list list \<Rightarrow> nat \<Rightarrow> error + real list" where
  "column m i = (if list_all (\<lambda>row. i < length row) m then Inr (map (\<lambda>row. row ! i) m)
                 else Inl IndexOutOfRange)"

definition clampColumn :: "real list list \<Rightarrow> nat \<Rightarrow> range \<Rightarrow> error + real list" where
  "clampColumn m i r = bindE (column m i) (\<lambda>c. Inr (map (\<lambda>x. clamp x r) c))"

definition convertPlanAction ::
  "config \<Rightarrow> real list list \<Rightarrow> error + (real list list \<times> real list list)" where
  "convertPlanAction cfg plan_action =
     bindE (clampColumn plan_action 0 (p_range cfg)) (\<lambda>p.
     bindE (clampColumn plan_action 1 (dx_range cfg)) (\<lambda>dx.
     bindE (clampColumn plan_action 2 (dy_range cfg)) (\<lambda>dy.
     bindE (clampColumn plan_action 3 (dz_range cfg)) (\<lambda>dz.
     bindE (clampColumn plan_action 4 (dtheta_range cfg)) (\<lambda>dtheta.
     bindE (getUnscaledActions p (p_range cfg)) (\<lambda>up.
     bindE (getUnscaledActions dx (dx_range cfg)) (\<lambda>udx.
     bindE (getUnscaledActions dy (dy_range cfg)) (\<lambda>udy.
     bindE (getUnscaledActions dz (dz_range cfg)) (\<lambda>udz.
     bindE (getUnscaledActions dtheta (dtheta_range cfg)) (\<lambda>udtheta.
       decodeActions cfg up udx udy udz udtheta))))))))))"

text \<open>The normalized interval \<open>[-1, 1]\<close> and membership in a physical range.\<close>

definition normalized :: "real \<Rightarrow> bool" where
  "normalized u = (- 1 \<le> u \<and> u \<le> 1)"

definition in_range :: "real \<Rightarrow> range \<Rightarrow> bool" where
  "in_range x r = (fst r \<le> x \<and> x \<le> snd r)"

text \<open>A concrete task configuration, used to run the definitions on explicit inputs.\<close>

definition test_config :: config where
  "test_config = \<lparr>dpos = 1/20, drot = 1/4, action_dim = 5, seq_len = 2, vision_channels = 1,
     vision_size = 2, force_dim = 2, proprio_dim = 1, num_data_gen_envs = 1, max_force = 10,
     discount = 1/2, tau = 1/4, lr_decay = 1/2, pretraining_steps = 1, training_steps = 2,
     checkpoint_interval = 1, eval_interval = 2, lr_decay_interval = 1, save_model = True\<rparr>"

section \<open>Agent: state, resetEpisode, getAction\<close>

text \<open>
  A vision frame is a (channels x height x width) tensor.  A network (\<open>torch.nn.Module\<close>)
  is represented by its table of named parameter tensors, which is also its
  \<open>state_dict()\<close>.  The three histories are indexed by environment slot first and by
  time second.
\<close>

type_synonym frame = "real list list list"

type_synonym module = "string \<rightharpoonup> real list"

record agent =
  latent :: module
  actor :: module
  critic :: module
  vision_history :: "frame list list"
  force_history :: "real list list list"
  action_history :: "real list list list"

text \<open>
  The collaborators of \<open>getAction\<close> that are not part of the given sources are
  parameters: \<open>torch_utils.centerCrop\<close>, \<open>torch_utils.normalizeForce\<close>, the latent
  encoder (its first output, as flat row-major data) and one draw of
  \<open>GaussianPolicy.sample\<close> (its first output, one action row per environment).
\<close>

record networks =
  centerCrop :: "frame list \<Rightarrow> nat \<Rightarrow> frame list"
  normalizeForce :: "real list list \<Rightarrow> real \<Rightarrow> real list list"
  encoder :: "module \<Rightarrow> frame list list \<Rightarrow> real list list list \<Rightarrow> error + real list"
  sample :: "module \<Rightarrow> real list list \<Rightarrow> error + real list list"

text \<open>\<open>torch.zeros(num_data_gen_envs, seq_len, ...)\<close>.  The action history is created with
  \<open>seq_len - 1\<close> slots; a negative size makes \<open>torch.zeros\<close> raise.\<close>

definition zeroFrame :: "config \<Rightarrow> frame" where
  "zeroFrame cfg =
     replicate (vision_channels cfg) (replicate (vision_size cfg) (replicate (vision_size cfg) 0))"

definition resetEpisode :: "config \<Rightarrow> agent \<Rightarrow> error + agent" where
  "resetEpisode cfg ag =
     (if seq_len cfg = 0 then Inl NegativeDimension
      else Inr (ag\<lparr>
        vision_history :=
          replicate (num_data_gen_envs cfg) (replicate (seq_len cfg) (zeroFrame cfg)),
        force_history :=
          replicate (num_data_gen_envs cfg) (replicate (seq_len cfg) (replicate (force_dim cfg) 0)),
        action_history :=
          replicate (num_data_gen_envs cfg)
            (replicate (seq_len cfg - 1) (replicate (action_dim cfg) 0))\<rparr>))"

text \<open>\<open>force[:, -1, :]\<close>: the latest timestep of every environment's force window.\<close>

definition lastTimestep :: "real list list list \<Rightarrow> error + real list list" where
  "lastTimestep force =
     (if list_ex (\<lambda>h. h = []) force then Inl IndexOutOfRange else Inr (map last force))"

text \<open>\<open>t.view(n, m)\<close> of a 2-D tensor: the same row-major data, cut into \<open>n\<close> rows of
  \<open>m\<close>.\<close>

definition view2 :: "nat \<Rightarrow> nat \<Rightarrow> real list list \<Rightarrow> error + real list list" where
  "view2 n m t =
     (let flat = concat t
      in if length flat = n * m then Inr (map (\<lambda>i. take m (drop (i * m) flat)) [0..<n])
         else Inl DimensionMismatch)"

text \<open>\<open>t.view(n, -1)\<close> of flat data: the row length is inferred, which fails on no data
  and when \<open>n\<close> does not divide the number of elements.\<close>

definition viewRows :: "nat \<Rightarrow> real list \<Rightarrow> error + real list list" where
  "viewRows n flat =
     (if flat = [] \<or> length flat mod n \<noteq> 0 then Inl DimensionMismatch
      else Inr (map (\<lambda>i. take (length flat div n) (drop (i * (length flat div n)) flat))
                  [0..<n]))"

text \<open>\<open>torch.roll(history, -1, 1)\<close>: in every environment slot, each entry moves one place
  towards the front and the first entry wraps around to the end.\<close>

definition roll :: "'a list list \<Rightarrow> 'a list list" where
  "roll history = map rotate1 history"

text \<open>\<open>history[:, -1] = new\<close>.  The time axis must not be empty; a batch of one entry is
  broadcast over the environment slots, any other batch size must match.  (The inner
  shape of an entry is not checked here.)\<close>

definition broadcastBatch :: "nat \<Rightarrow> 'a list \<Rightarrow> error + 'a list" where
  "broadcastBatch n new =
     (if length new = n then Inr new
      else if length new = 1 then Inr (replicate n (hd new))
      else Inl DimensionMismatch)"

definition setLast :: "'a list list \<Rightarrow> 'a list \<Rightarrow> error + 'a list list" where
  "setLast history new =
     (if list_ex (\<lambda>h. h = []) history then Inl IndexOutOfRange
      else bindE (broadcastBatch (length history) new) (\<lambda>nb.
             Inr (map (\<lambda>(h, x). h[length h - 1 := x]) (zip history nb))))"

text \<open>\<open>torch.cat([a, b], dim=1)\<close> of two 2-D tensors.\<close>

definition cat1 :: "real list list \<Rightarrow> real list list \<Rightarrow> error + real list list" where
  "cat1 a b = (if length a = length b then Inr (map (\<lambda>(x, y). x @ y) (zip a b))
               else Inl DimensionMismatch)"

text \<open>\<open>[action[:, i] for i in range(action_shape)]\<close>, stopping at the first IndexError.\<close>

fun columns :: "real list list \<Rightarrow> nat list \<Rightarrow> error + real list list" where
  "columns m [] = Inr []"
| "columns m (i # is) =
     bindE (column m i) (\<lambda>c. bindE (columns m is) (\<lambda>cs. Inr (c # cs)))"

text \<open>\<open>self.decodeActions(*cols)\<close>: the method takes exactly five tensors.\<close>

definition decodeActionsStar ::
  "config \<Rightarrow> real list list \<Rightarrow> error + (real list list \<times> real list list)" where
  "decodeActionsStar cfg cols =
     (case cols of
        [a, b, c, d, e] \<Rightarrow> decodeActions cfg a b c d e
      | _ \<Rightarrow> Inl ArityMismatch)"

text \<open>
  \<open>getAction\<close>.  Both branches of \<open>if evaluate\<close> draw from the policy in the same way.
  The result is the new agent state and the triple (unscaled actions, scaled actions,
  value), the value being the constant 0.
\<close>

definition getAction ::
  "networks \<Rightarrow> config \<Rightarrow> agent \<Rightarrow> frame list \<Rightarrow> real list list list \<Rightarrow> real list list \<Rightarrow> bool
     \<Rightarrow> error + (agent \<times> (real list list \<times> real list list \<times> real))" where
  "getAction nets cfg ag vision force proprio evaluate =
     (let batch = length vision;
          vision' = centerCrop nets vision (vision_size cfg)
      in bindE (lastTimestep force) (\<lambda>latest.
         bindE (view2 batch (force_dim cfg) (normalizeForce nets latest (max_force cfg))) (\<lambda>force'.
         bindE (view2 batch (proprio_dim cfg) proprio) (\<lambda>proprio'.
         bindE (setLast (roll (vision_history ag)) vision') (\<lambda>vh.
         bindE (setLast (roll (force_history ag)) force') (\<lambda>fh.
         bindE (encoder nets (latent ag) vh fh) (\<lambda>zflat.
         bindE (viewRows (num_data_gen_envs cfg) zflat) (\<lambda>z.
         bindE (viewRows (num_data_gen_envs cfg) (concat (concat (action_history ag)))) (\<lambda>ahflat.
         bindE (cat1 z ahflat) (\<lambda>z'.
         bindE (if evaluate then sample nets (actor ag) z' else sample nets (actor ag) z')
           (\<lambda>action.
         bindE (setLast (roll (action_history ag)) action) (\<lambda>ah.
         bindE (columns action [0..<action_dim cfg]) (\<lambda>cols.
         bindE (decodeActionsStar cfg cols) (\<lambda>(action_idx, action').
           Inr (ag\<lparr>vision_history := vh, force_history := fh, action_history := ah\<rparr>,
                (action_idx, action', 0))))))))))))))))"

section \<open>Agent: getWeights, setWeights\<close>

text \<open>\<open>Module.load_state_dict\<close> (strict): the given table must have exactly the module's
  keys, each tensor with the module's number of elements; the values are then replaced.\<close>

definition compatible :: "module \<Rightarrow> module \<Rightarrow> bool" where
  "compatible sd m =
     (dom sd = dom m \<and> (\<forall>k \<in> dom m. map_option length (sd k) = map_option length (m k)))"

definition load_state_dict :: "module \<Rightarrow> module \<Rightarrow> error + module" where
  "load_state_dict sd m = (if compatible sd m then Inr sd else Inl KeyMismatch)"

definition getWeights :: "agent \<Rightarrow> module \<times> module \<times> module" where
  "getWeights ag = (latent ag, actor ag, critic ag)"

fun setWeights :: "(module \<times> module \<times> module) option \<Rightarrow> agent \<Rightarrow> error + agent" where
  "setWeights None ag = Inr ag"
| "setWeights (Some (w0, w1, w2)) ag =
     bindE (load_state_dict w0 (latent ag)) (\<lambda>l.
     bindE (load_state_dict w1 (actor ag)) (\<lambda>a.
     bindE (load_state_dict w2 (critic ag)) (\<lambda>c.
       Inr (ag\<lparr>latent := l, actor := a, critic := c\<rparr>))))"

section \<open>Predicates on agent states and concrete test data\<close>

text \<open>The shape of the three history windows as \<open>resetEpisode\<close> creates them: one window per
  environment slot, \<open>seq_len\<close> vision frames and force readings, \<open>seq_len - 1\<close> prior
  actions.\<close>

definition history_shape :: "config \<Rightarrow> agent \<Rightarrow> bool" where
  "history_shape cfg ag =
     (length (vision_history ag) = num_data_gen_envs cfg
      \<and> list_all (\<lambda>h. length h = seq_len cfg) (vision_history ag)
      \<and> length (force_history ag) = num_data_gen_envs cfg
      \<and> list_all (\<lambda>h. length h = seq_len cfg) (force_history ag)
      \<and> length (action_history ag) = num_data_gen_envs cfg
      \<and> list_all (\<lambda>h. length h = seq_len cfg - 1) (action_history ag))"

text \<open>The shape in which all three windows have \<open>seq_len\<close> slots.\<close>

definition claimed_history_shape :: "config \<Rightarrow> agent \<Rightarrow> bool" where
  "claimed_history_shape cfg ag =
     (list_all (\<lambda>h. length h = seq_len cfg) (vision_history ag)
      \<and> list_all (\<lambda>h. length h = seq_len cfg) (force_history ag)
      \<and> list_all (\<lambda>h. length h = seq_len cfg) (action_history ag))"

definition histories_zero :: "agent \<Rightarrow> bool" where
  "histories_zero ag =
     (list_all (list_all (list_all (list_all (list_all (\<lambda>x. x = 0))))) (vision_history ag)
      \<and> list_all (list_all (list_all (\<lambda>x. x = 0))) (force_history ag)
      \<and> list_all (list_all (list_all (\<lambda>x. x = 0))) (action_history ag))"

text \<open>\<open>shifted old new x\<close>: the window \<open>new\<close> is \<open>old\<close> moved one slot towards the front
  with \<open>x\<close> in the last slot.\<close>

definition shifted :: "'a list \<Rightarrow> 'a list \<Rightarrow> 'a \<Rightarrow> bool" where
  "shifted old new x =
     (length new = length old \<and> last new = x
      \<and> list_all (\<lambda>i. new ! i = old ! Suc i) [0..<length old - 1]
      \<and> (2 \<le> length old \<longrightarrow> new ! 0 = old ! 1))"

text \<open>Concrete collaborators and agent states, used to run \<open>resetEpisode\<close> and
  \<open>getAction\<close> on explicit inputs.\<close>

definition test_nets :: networks where
  "test_nets = \<lparr>centerCrop = (\<lambda>v n. v),
                 normalizeForce = (\<lambda>f m. map (map (\<lambda>x. x / m)) f),
                 encoder = (\<lambda>m vh fh. Inr [1]),
                 sample = (\<lambda>m z. Inr [[0, 1, - 1, 0, 1/2]])\<rparr>"

definition test_agent :: agent where
  "test_agent = \<lparr>latent = Map.empty, actor = Map.empty, critic = Map.empty,
     vision_history = [[[[[1, 1], [1, 1]]], [[[2, 2], [2, 2]]]]],
     force_history = [[[1, 2], [3, 4]]],
     action_history = [[[1, 1, 1, 1, 1]]]\<rparr>"

definition reset_agent :: agent where
  "reset_agent = \<lparr>latent = Map.empty, actor = Map.empty, critic = Map.empty,
     vision_history = [[[[[0, 0], [0, 0]]], [[[0, 0], [0, 0]]]]],
     force_history = [[[0, 0], [0, 0]]],
     action_history = [[[0, 0, 0, 0, 0]]]\<rparr>"

definition stepped_agent :: agent where
  "stepped_agent = \<lparr>latent = Map.empty, actor = Map.empty, critic = Map.empty,
     vision_history = [[[[[2, 2], [2, 2]]], [[[3, 3], [3, 3]]]]],
     force_history = [[[3, 4], [1/2, 1]]],
     action_history = [[[0, 1, - 1, 0, 1/2]]]\<rparr>"


definition weights_agent :: agent where
  "weights_agent = test_agent\<lparr>latent := [''enc'' \<mapsto> [0, 0]], actor := [''mu'' \<mapsto> [0]],
     critic := [''q1'' \<mapsto> [0], ''q2'' \<mapsto> [0]]\<rparr>"

definition test_weights :: "module \<times> module \<times> module" where
  "test_weights = ([''enc'' \<mapsto> [1, 2]], [''mu'' \<mapsto> [3]], [''q1'' \<mapsto> [4], ''q2'' \<mapsto> [5]])"

section \<open>Trainer: state and collaborators\<close>

text \<open>
  The parameters of a network are the list of its parameter tensors in the order of
  \<open>parameters()\<close>, each tensor flattened.  A sampled batch is the tuple that
  \<open>processBatch\<close> unpacks: the pair of observation histories, the action sequences
  (batch x time x action), and the reward and done sequences (batch x time).
\<close>

type_synonym params = "real list list"

record batch =
  obs_batch :: "frame list list \<times> real list list list"
  action_batch :: "real list list list"
  reward_batch :: "real list list"
  done_batch :: "real list list"

datatype optimizer = LatentOpt | ActorOpt | CriticOpt | AlphaOpt

text \<open>Calls that leave the Trainer: to an optimizer or scheduler, to the data generator,
  to the replay buffer, to shared storage and to the logger.  The Trainer state records
  them in the order in which they are made.\<close>

datatype event =
    ResetEnvs
  | SampleLatentRemote
  | SampleRemote
  | RayGetBatch
  | OptimizerStep optimizer
  | LogLatentLosses
  | SetInfoPretrainingStep int
  | UpdateScalars
  | Sleep
  | StepEnvsAsync
  | StepEnvsWait
  | TargetUpdate
  | SchedulerStep optimizer
  | SetInfoWeights
  | SaveCheckpoint
  | SetInfoTrainingStep int bool
  | LogTrainingStep

record trainer =
  latent_params :: params
  actor_params :: params
  critic_params :: params
  critic_target_params :: params
  log_alpha :: real
  alpha :: real
  actor_lr :: real
  critic_lr :: real
  pre_training_step :: int
  training_step :: int
  trace :: "event list"

text \<open>
  The numerics that are not part of the given sources are parameters: the latent losses
  and the result of one optimizer step on them, the posterior latents and feature-action
  vectors of a batch (\<open>z\<close>, \<open>next_z\<close>, \<open>feature_action\<close>, \<open>next_feature_action\<close>), one
  draw of the policy with its log-probabilities, the twin Q-values of a critic (each
  already squeezed to one value per sample), and the results of one optimizer step of
  critic, actor and temperature.
\<close>

record numerics =
  latent_losses :: "params \<Rightarrow> batch \<Rightarrow> real \<times> real \<times> real \<times> real \<times> real"
  latent_opt_step :: "params \<Rightarrow> batch \<Rightarrow> params"
  alignment_loss :: "params \<Rightarrow> batch \<Rightarrow> real"
  align_opt_step :: "params \<Rightarrow> batch \<Rightarrow> params"
  posterior :: "params \<Rightarrow> batch
     \<Rightarrow> error + (real list list \<times> real list list \<times> real list list \<times> real list list)"
  actor_sample :: "params \<Rightarrow> real list list \<Rightarrow> real list list \<times> real list"
  q_values :: "params \<Rightarrow> real list list \<Rightarrow> real list list \<Rightarrow> real list \<times> real list"
  critic_opt_step :: "params \<Rightarrow> real list list \<Rightarrow> real list list \<Rightarrow> real list \<Rightarrow> params"
  actor_opt_step :: "params \<Rightarrow> params \<Rightarrow> real \<Rightarrow> real list list \<Rightarrow> real list list \<Rightarrow> params"
  alpha_opt_step :: "real \<Rightarrow> real list \<Rightarrow> real \<Rightarrow> real"

section \<open>Trainer: elementwise tensor operations\<close>

text \<open>A binary elementwise operation on two 1-D tensors; a tensor with one element is
  broadcast over the other, any other size difference is an error.\<close>

definition broadcast2 ::
  "(real \<Rightarrow> real \<Rightarrow> real) \<Rightarrow> real list \<Rightarrow> real list \<Rightarrow> error + real list" where
  "broadcast2 f a b =
     (if length a = length b then Inr (map (\<lambda>(x, y). f x y) (zip a b))
      else if length a = 1 then Inr (map (f (hd a)) b)
      else if length b = 1 then Inr (map (\<lambda>x. f x (hd b)) a)
      else Inl DimensionMismatch)"

text \<open>\<open>t[:, -1]\<close> of a 2-D or 3-D tensor: the last timestep of every sample.\<close>

definition lastStep :: "'a list list \<Rightarrow> error + 'a list" where
  "lastStep t = (if list_ex (\<lambda>row. row = []) t then Inl IndexOutOfRange else Inr (map last t))"

text \<open>\<open>mean()\<close> of a 1-D tensor; nan on an empty tensor.\<close>

definition mean :: "real list \<Rightarrow> error + real" where
  "mean xs = (if xs = [] then Inl NonFinite else Inr (sum_list xs / real (length xs)))"

definition mse_loss :: "real list \<Rightarrow> real list \<Rightarrow> error + real" where
  "mse_loss a b = bindE (broadcast2 (\<lambda>x y. (x - y)\<^sup>2) a b) mean"

section \<open>Trainer: softTargetUpdate\<close>

text \<open>\<open>t_param.data.copy_(x)\<close>: \<open>x\<close> must have the size of \<open>t_param\<close> or one element.\<close>

definition copy_into :: "real list \<Rightarrow> real list \<Rightarrow> error + real list" where
  "copy_into t x =
     (if length x = length t then Inr x
      else if length x = 1 then Inr (replicate (length t) (hd x))
      else Inl DimensionMismatch)"

text \<open>The loop over \<open>zip(critic_target.parameters(), critic.parameters())\<close>: it stops with
  the shorter list and leaves the remaining target parameters as they are.\<close>

fun softUpdateParams :: "real \<Rightarrow> params \<Rightarrow> params \<Rightarrow> error + params" where
  "softUpdateParams tau' (t_param # ts) (l_param # ls) =
     bindE (broadcast2 (\<lambda>l t. tau' * l + (1.0 - tau') * t) l_param t_param) (\<lambda>x.
     bindE (copy_into t_param x) (\<lambda>t'.
     bindE (softUpdateParams tau' ts ls) (\<lambda>ts'. Inr (t' # ts'))))"
| "softUpdateParams tau' ts [] = Inr ts"
| "softUpdateParams tau' [] ls = Inr []"

definition softTargetUpdate :: "config \<Rightarrow> trainer \<Rightarrow> error + trainer" where
  "softTargetUpdate cfg self =
     bindE (softUpdateParams (tau cfg) (critic_target_params self) (critic_params self))
       (\<lambda>ts. Inr (self\<lparr>critic_target_params := ts\<rparr>))"

section \<open>Trainer: updateLatent, updateLatentAlign, updateSLAC\<close>

definition updateLatent :: "numerics \<Rightarrow> trainer \<Rightarrow> batch \<Rightarrow> trainer \<times> real" where
  "updateLatent N self b =
     (case latent_losses N (latent_params self) b of
        (loss_kld, loss_image, loss_reward, align_loss, contact_loss) \<Rightarrow>
          (self\<lparr>latent_params := latent_opt_step N (latent_params self) b,
                trace := trace self @ [OptimizerStep LatentOpt, LogLatentLosses]\<rparr>,
           loss_kld + loss_reward + loss_image + align_loss + contact_loss))"

definition updateLatentAlign :: "numerics \<Rightarrow> trainer \<Rightarrow> batch \<Rightarrow> trainer \<times> real" where
  "updateLatentAlign N self b =
     (self\<lparr>latent_params := align_opt_step N (latent_params self) b,
           trace := trace self @ [OptimizerStep LatentOpt]\<rparr>,
      alignment_loss N (latent_params self) b)"

text \<open>The critic target of \<open>updateSLAC\<close> (trainer.py, lines 289-295): the policy is sampled
  on the next feature-action vector, the target critic is evaluated on the next latent
  and that action, and the TD target is formed from the last timestep's reward and done
  flag.\<close>

definition targetQ ::
  "numerics \<Rightarrow> config \<Rightarrow> trainer \<Rightarrow> real list list \<Rightarrow> real list list \<Rightarrow> batch
     \<Rightarrow> error + real list" where
  "targetQ N cfg self next_z next_feature_action b =
     (case actor_sample N (actor_params self) next_feature_action of
        (next_action, next_log_pi) \<Rightarrow>
     (case q_values N (critic_target_params self) next_z next_action of
        (next_q1, next_q2) \<Rightarrow>
       bindE (broadcast2 min next_q1 next_q2) (\<lambda>min_q.
       bindE (broadcast2 (\<lambda>q l. q - l) min_q (map (\<lambda>l. alpha self * l) next_log_pi)) (\<lambda>next_q.
       bindE (lastStep (reward_batch b)) (\<lambda>reward.
       bindE (lastStep (done_batch b)) (\<lambda>done.
       bindE (broadcast2 (\<lambda>d q. d * q) (map (\<lambda>d. (1 - d) * discount cfg) done) next_q) (\<lambda>bootstrap.
         broadcast2 (\<lambda>r x. r + x) reward bootstrap)))))))"

definition updateSLAC ::
  "numerics \<Rightarrow> config \<Rightarrow> trainer \<Rightarrow> batch
     \<Rightarrow> error + (trainer \<times> real list \<times> (real \<times> real \<times> real \<times> real))" where
  "updateSLAC N cfg self b =
     bindE (posterior N (latent_params self) b) (\<lambda>(z, next_z, feature_action, next_feature_action).
     bindE (targetQ N cfg self next_z next_feature_action b) (\<lambda>target_q.
     bindE (lastStep (action_batch b)) (\<lambda>last_action.
     (case q_values N (critic_params self) z last_action of (curr_q1, curr_q2) \<Rightarrow>
     bindE (mse_loss curr_q1 target_q) (\<lambda>loss1.
     bindE (mse_loss curr_q2 target_q) (\<lambda>loss2.
     bindE (broadcast2 (\<lambda>q t. \<bar>q - t\<bar>) curr_q1 target_q) (\<lambda>err1.
     bindE (broadcast2 (\<lambda>q t. \<bar>q - t\<bar>) curr_q2 target_q) (\<lambda>err2.
     bindE (broadcast2 (\<lambda>x y. 0.5 * (x + y)) err1 err2) (\<lambda>td_error.
     (let critic_loss = loss1 + loss2;
          critic' = critic_opt_step N (critic_params self) z last_action target_q
      in case actor_sample N (actor_params self) feature_action of (action, log_pi) \<Rightarrow>
         (case q_values N critic' z action of (q1, q2) \<Rightarrow>
     bindE (broadcast2 min q1 q2) (\<lambda>min_q.
     bindE (broadcast2 (\<lambda>q l. q - l) min_q (map (\<lambda>l. alpha self * l) log_pi)) (\<lambda>objective.
     bindE (mean objective) (\<lambda>mean_objective.
     (let actor_loss = - mean_objective;
          actor' = actor_opt_step N (actor_params self) critic' (alpha self) feature_action z;
          target_entropy = - real (action_dim cfg)
      in
     bindE (mean (map (\<lambda>l. log_alpha self * (l + target_entropy)) log_pi)) (\<lambda>mean_alpha.
     (let alpha_loss = - mean_alpha;
          log_alpha' = alpha_opt_step N (log_alpha self) log_pi target_entropy
      in
     bindE (mean log_pi) (\<lambda>mean_log_pi.
       Inr (self\<lparr>critic_params := critic', actor_params := actor', log_alpha := log_alpha',
                  alpha := exp log_alpha',
                  trace := trace self @ [OptimizerStep CriticOpt, OptimizerStep ActorOpt,
                                         OptimizerStep AlphaOpt]\<rparr>,
            td_error, (actor_loss, critic_loss, alpha_loss, - mean_log_pi))))))))))))))))))))"

section \<open>Concrete Trainer test data\<close>

definition test_trainer :: trainer where
  "test_trainer = \<lparr>latent_params = [[0]], actor_params = [[0]], critic_params = [[1, 2], [3]],
     critic_target_params = [[5, 6], [7]], log_alpha = 0, alpha = 1, actor_lr = 1, critic_lr = 1,
     pre_training_step = 0, training_step = 0, trace = []\<rparr>"

definition test_numerics :: numerics where
  "test_numerics = \<lparr>
     latent_losses = (\<lambda>p b. (1, 2, 3, 4, 5)),
     latent_opt_step = (\<lambda>p b. map (map (\<lambda>x. x + 1)) p),
     alignment_loss = (\<lambda>p b. 4),
     align_opt_step = (\<lambda>p b. map (map (\<lambda>x. x + 2)) p),
     posterior = (\<lambda>p b. Inr ([[0], [0]], [[0], [0]], [[0], [0]], [[0], [0]])),
     actor_sample = (\<lambda>p f. ([[0, 0, 0, 0, 0], [0, 0, 0, 0, 0]], [1, 2])),
     q_values = (\<lambda>p z a. ([3, 5], [4, 2])),
     critic_opt_step = (\<lambda>p z a t. map (map (\<lambda>x. x + 1)) p),
     actor_opt_step = (\<lambda>p c a f z. map (map (\<lambda>x. x + 1)) p),
     alpha_opt_step = (\<lambda>la lp te. 0)\<rparr>"

definition test_batch :: batch where
  "test_batch = \<lparr>obs_batch = ([], []),
     action_batch = [[[0, 0, 0, 0, 0]], [[0, 0, 0, 0, 0]]],
     reward_batch = [[0, 1], [0, 2]],
     done_batch = [[0, 0], [0, 1]]\<rparr>"


section \<open>Trainer: continuousUpdateWeights as a machine over program points\<close>

text \<open>
  \<open>continuousUpdateWeights\<close> is modelled statement by statement.  A program point names
  the statement that is executed next: the points \<open>Pre...\<close> are the pretraining loop
  (trainer.py, lines 131-157), the points \<open>Pol...\<close> the policy-training loop (lines
  160-234).  \<open>Returned\<close> is the end of the method and \<open>Raised e\<close> an exception that left it.
\<close>

datatype pc =
    PreInit | PreTop | PreFetch | PreUpdateLatent | PreUpdateAlign | PreSetInfo | PreLog | PreIncr
  | PolInit | PolTop | PolPause | PolStepAsync | PolFetch | PolUpdateLatent | PolUpdateAlign
  | PolUpdateSLAC | PolIncr | PolStepWait | PolTarget | PolLrDecay | PolCheckpoint | PolSetInfo
  | PolLogScalars | PolLogStep
  | Returned | Raised error

text \<open>What the other actors would answer if asked during one step: the \<open>terminate\<close> and
  \<open>pause_training\<close> entries of shared storage and the batch that the pending replay-buffer
  request resolves to.\<close>

record input =
  terminate :: bool
  pause_training :: bool
  sampled :: batch

text \<open>The Trainer object together with the local variables of the method.\<close>

record machine =
  obj :: trainer
  pc :: pc
  cur_batch :: batch
  latent_loss :: real
  loss :: "real \<times> real \<times> real \<times> real"

definition emit :: "event list \<Rightarrow> machine \<Rightarrow> machine" where
  "emit evs m = m\<lparr>obj := (obj m)\<lparr>trace := trace (obj m) @ evs\<rparr>\<rparr>"

definition goto :: "pc \<Rightarrow> machine \<Rightarrow> machine" where
  "goto p m = m\<lparr>pc := p\<rparr>"

text \<open>One statement.  Python's \<open>and\<close> evaluates its second operand only when the first
  holds, and \<open>%\<close> raises ZeroDivisionError on a zero divisor; on integers it agrees with
  \<open>mod\<close> otherwise.\<close>

definition step :: "numerics \<Rightarrow> config \<Rightarrow> input \<Rightarrow> machine \<Rightarrow> machine" where
  "step N cfg i m =
     (case pc m of
        PreInit \<Rightarrow> goto PreTop (emit [ResetEnvs, SampleLatentRemote] m)
      | PreTop \<Rightarrow>
          if pre_training_step (obj m) < pretraining_steps cfg \<and> \<not> terminate i
          then goto PreFetch m else goto PolInit m
      | PreFetch \<Rightarrow>
          goto PreUpdateLatent (emit [RayGetBatch, SampleLatentRemote] (m\<lparr>cur_batch := sampled i\<rparr>))
      | PreUpdateLatent \<Rightarrow>
          (case updateLatent N (obj m) (cur_batch m) of
             (self', l) \<Rightarrow> goto PreUpdateAlign (m\<lparr>obj := self', latent_loss := l\<rparr>))
      | PreUpdateAlign \<Rightarrow>
          (case updateLatentAlign N (obj m) (cur_batch m) of
             (self', l) \<Rightarrow> goto PreSetInfo (m\<lparr>obj := self'\<rparr>))
      | PreSetInfo \<Rightarrow>
          goto PreLog (emit [SetInfoPretrainingStep (pre_training_step (obj m))] m)
      | PreLog \<Rightarrow> goto PreIncr (emit [UpdateScalars] m)
      | PreIncr \<Rightarrow>
          goto PreTop (m\<lparr>obj := (obj m)\<lparr>pre_training_step := pre_training_step (obj m) + 1\<rparr>\<rparr>)
      | PolInit \<Rightarrow> goto PolTop (emit [SampleRemote] m)
      | PolTop \<Rightarrow>
          if training_step (obj m) < training_steps cfg \<and> \<not> terminate i
          then goto PolPause m else goto Returned m
      | PolPause \<Rightarrow>
          if pause_training i then goto PolTop (emit [Sleep] m) else goto PolStepAsync m
      | PolStepAsync \<Rightarrow> goto PolFetch (emit [StepEnvsAsync] m)
      | PolFetch \<Rightarrow>
          goto PolUpdateLatent (emit [RayGetBatch, SampleRemote] (m\<lparr>cur_batch := sampled i\<rparr>))
      | PolUpdateLatent \<Rightarrow>
          (case updateLatent N (obj m) (cur_batch m) of
             (self', l) \<Rightarrow> goto PolUpdateAlign (m\<lparr>obj := self', latent_loss := l\<rparr>))
      | PolUpdateAlign \<Rightarrow>
          (case updateLatentAlign N (obj m) (cur_batch m) of
             (self', l) \<Rightarrow> goto PolUpdateSLAC (m\<lparr>obj := self'\<rparr>))
      | PolUpdateSLAC \<Rightarrow>
          (case updateSLAC N cfg (obj m) (cur_batch m) of
             Inl e \<Rightarrow> goto (Raised e) m
           | Inr (self', td_error, l) \<Rightarrow> goto PolIncr (m\<lparr>obj := self', loss := l\<rparr>))
      | PolIncr \<Rightarrow>
          goto PolStepWait (m\<lparr>obj := (obj m)\<lparr>training_step := training_step (obj m) + 1\<rparr>\<rparr>)
      | PolStepWait \<Rightarrow> goto PolTarget (emit [StepEnvsWait] m)
      | PolTarget \<Rightarrow>
          (case softTargetUpdate cfg (obj m) of
             Inl e \<Rightarrow> goto (Raised e) m
           | Inr self' \<Rightarrow> goto PolLrDecay (emit [TargetUpdate] (m\<lparr>obj := self'\<rparr>)))
      | PolLrDecay \<Rightarrow>
          if training_step (obj m) > 0
          then if lr_decay_interval cfg = 0 then goto (Raised ZeroDivision) m
               else if training_step (obj m) mod lr_decay_interval cfg = 0
                    then goto PolCheckpoint
                           (emit [SchedulerStep ActorOpt, SchedulerStep CriticOpt]
                              (m\<lparr>obj := (obj m)\<lparr>actor_lr := actor_lr (obj m) * lr_decay cfg,
                                     critic_lr := critic_lr (obj m) * lr_decay cfg\<rparr>\<rparr>))
                    else goto PolCheckpoint m
          else goto PolCheckpoint m
      | PolCheckpoint \<Rightarrow>
          if checkpoint_interval cfg = 0 then goto (Raised ZeroDivision) m
          else if training_step (obj m) mod checkpoint_interval cfg = 0
               then goto PolSetInfo
                      (emit (SetInfoWeights # (if save_model cfg then [SaveCheckpoint] else [])) m)
               else goto PolSetInfo m
      | PolSetInfo \<Rightarrow>
          if training_step (obj m) > 0 \<and> eval_interval cfg = 0 then goto (Raised ZeroDivision) m
          else goto PolLogScalars
                 (emit [SetInfoTrainingStep (training_step (obj m))
                          (training_step (obj m) > 0
                           \<and> training_step (obj m) mod eval_interval cfg = 0)] m)
      | PolLogScalars \<Rightarrow> goto PolLogStep (emit [UpdateScalars] m)
      | PolLogStep \<Rightarrow> goto PolTop (emit [LogTrainingStep] m)
      | Returned \<Rightarrow> m
      | Raised e \<Rightarrow> m)"

text \<open>\<open>run N cfg inp n m\<close>: the state after \<open>n\<close> statements from \<open>m\<close>, the \<open>k\<close>-th of them
  seeing the answers \<open>inp k\<close>.\<close>

fun run :: "numerics \<Rightarrow> config \<Rightarrow> (nat \<Rightarrow> input) \<Rightarrow> nat \<Rightarrow> machine \<Rightarrow> machine" where
  "run N cfg inp 0 m = m"
| "run N cfg inp (Suc n) m = step N cfg (inp n) (run N cfg inp n m)"

section \<open>Predicates on program points and events\<close>

definition pretraining :: "pc \<Rightarrow> bool" where
  "pretraining p =
     (p \<in> {PreInit, PreTop, PreFetch, PreUpdateLatent, PreUpdateAlign, PreSetInfo, PreLog, PreIncr})"




text \<open>Events that touch anything but the latent model: optimizer steps of actor, critic
  and temperature, scheduler steps and the target update.\<close>

definition latent_only :: "event \<Rightarrow> bool" where
  "latent_only e =
     (case e of
        OptimizerStep opt \<Rightarrow> opt = LatentOpt
      | SchedulerStep opt \<Rightarrow> False
      | TargetUpdate \<Rightarrow> False
      | _ \<Rightarrow> True)"

text \<open>The events that every update cycle makes, as opposed to the pause and to the
  calls that depend on the step count (scheduler steps, checkpoints); \<open>kind\<close> forgets the
  payload of an event.\<close>

definition every_cycle :: "event \<Rightarrow> bool" where
  "every_cycle e =
     (case e of
        Sleep \<Rightarrow> False
      | SchedulerStep opt \<Rightarrow> False
      | SetInfoWeights \<Rightarrow> False
      | SaveCheckpoint \<Rightarrow> False
      | _ \<Rightarrow> True)"

definition kind :: "event \<Rightarrow> event" where
  "kind e =
     (case e of
        SetInfoTrainingStep n b \<Rightarrow> SetInfoTrainingStep 0 False
      | SetInfoPretrainingStep n \<Rightarrow> SetInfoPretrainingStep 0
      | _ \<Rightarrow> e)"



definition new_events :: "machine \<Rightarrow> machine \<Rightarrow> event list" where
  "new_events m m' = drop (length (trace (obj m))) (trace (obj m'))"

definition test_machine :: machine where
  "test_machine = \<lparr>obj = test_trainer, pc = PreInit, cur_batch = test_batch, latent_loss = 0,
     loss = (0, 0, 0, 0)\<rparr>"

text \<open>\<open>pretraining_frame m m'\<close>: from \<open>m\<close> to \<open>m'\<close> the parameters of actor, critic and
  target critic, the temperature, the learning rates of actor and critic and the
  training-step counter are the same, and the calls made in between touch nothing but
  the latent model.\<close>

definition pretraining_frame :: "machine \<Rightarrow> machine \<Rightarrow> bool" where
  "pretraining_frame m m' =
     (actor_params (obj m') = actor_params (obj m)
      \<and> critic_params (obj m') = critic_params (obj m)
      \<and> critic_target_params (obj m') = critic_target_params (obj m)
      \<and> log_alpha (obj m') = log_alpha (obj m)
      \<and> alpha (obj m') = alpha (obj m)
      \<and> actor_lr (obj m') = actor_lr (obj m)
      \<and> critic_lr (obj m') = critic_lr (obj m)
      \<and> training_step (obj m') = training_step (obj m)
      \<and> trace (obj m') = trace (obj m) @ new_events m m'
      \<and> list_all latent_only (new_events m m'))"

definition test_input :: "nat \<Rightarrow> input" where
  "test_input k = \<lparr>terminate = False, pause_training = False, sampled = test_batch\<rparr>"


text \<open>\<open>made m m' ks\<close>: the trace of \<open>m'\<close> continues the trace of \<open>m\<close>, and the events added that
  belong to every update cycle are, payload apart, exactly \<open>ks\<close>.\<close>

definition made :: "machine \<Rightarrow> machine \<Rightarrow> event list \<Rightarrow> bool" where
  "made m m' ks =
     (trace (obj m') = trace (obj m) @ new_events m m'
      \<and> map kind (filter every_cycle (new_events m m')) = ks)"



section \<open>Properties of the action codec\<close>

lemma bindE_Inr [simp]: "bindE (Inr x) f = f x"
  by (simp add: bindE_def)

lemma bindE_Inl [simp]: "bindE (Inl e) f = Inl e"
  by (simp add: bindE_def)

lemma stack5_ok:
  "length b = length a \<Longrightarrow> length c = length a \<Longrightarrow> length d = length a \<Longrightarrow> length e = length a
   \<Longrightarrow> stack5 a b c d e = Inr (map (\<lambda>i. [a ! i, b ! i, c ! i, d ! i, e ! i]) [0..<length a])"
  by (simp add: stack5_def)

lemma stack5_Inr_iff:
  "stack5 a b c d e = Inr m \<longleftrightarrow>
     length b = length a \<and> length c = length a \<and> length d = length a \<and> length e = length a
     \<and> m = map (\<lambda>i. [a ! i, b ! i, c ! i, d ! i, e ! i]) [0..<length a]"
  by (auto simp: stack5_def)

lemma length_scaleAction [simp]: "length (scaleAction us r) = length us"
  by (simp add: scaleAction_def)

lemma nth_scaleAction [simp]:
  "i < length us \<Longrightarrow> scaleAction us r ! i = scaleValue (us ! i) r"
  by (simp add: scaleAction_def)

lemma decodeActions_Inr_iff:
  "decodeActions cfg up udx udy udz udth = Inr (ua, a) \<longleftrightarrow>
     length udx = length up \<and> length udy = length up \<and> length udz = length up
     \<and> length udth = length up
     \<and> ua = map (\<lambda>i. [up ! i, udx ! i, udy ! i, udz ! i, udth ! i]) [0..<length up]
     \<and> a = map (\<lambda>i. [scaleValue (up ! i) (p_range cfg), scaleValue (udx ! i) (dx_range cfg),
                      scaleValue (udy ! i) (dy_range cfg), scaleValue (udz ! i) (dz_range cfg),
                      scaleValue (udth ! i) (dtheta_range cfg)]) [0..<length up]"
  by (auto simp: decodeActions_def Let_def stack5_def)

lemma getUnscaledActions_ok:
  "fst r < snd r \<Longrightarrow> getUnscaledActions xs r = Inr (map (\<lambda>a. unscaleValue a r) xs)"
  by (simp add: getUnscaledActions_def)

lemma scale_unscale: "fst r < snd r \<Longrightarrow> scaleValue (unscaleValue a r) r = a"
  by (simp add: scaleValue_def unscaleValue_def field_simps)

text \<open>
  Claim C1.  For each of the five action dimensions with a non-degenerate configured range
  (\<open>dpos > 0\<close>, \<open>drot > 0\<close>; the gripper range is \<open>[0, 1]\<close>), normalizing a batch of
  physical values with \<open>getUnscaledActions\<close> and decoding the result with
  \<open>decodeActions\<close> gives back the physical values, exactly over the reals.  The identity
  holds for every physical value, in particular for those inside the range.
\<close>

theorem decode_unscaled_roundtrip:
  assumes "0 < dpos cfg" and "0 < drot cfg"
    and "length dx = length p" and "length dy = length p"
    and "length dz = length p" and "length dtheta = length p"
  shows "\<exists>up udx udy udz udtheta ua.
           getUnscaledActions p (p_range cfg) = Inr up
         \<and> getUnscaledActions dx (dx_range cfg) = Inr udx
         \<and> getUnscaledActions dy (dy_range cfg) = Inr udy
         \<and> getUnscaledActions dz (dz_range cfg) = Inr udz
         \<and> getUnscaledActions dtheta (dtheta_range cfg) = Inr udtheta
         \<and> decodeActions cfg up udx udy udz udtheta
             = Inr (ua, map (\<lambda>i. [p ! i, dx ! i, dy ! i, dz ! i, dtheta ! i]) [0..<length p])"
proof -
  have rp: "fst (p_range cfg) < snd (p_range cfg)" by (simp add: p_range_def)
  have rx: "fst (dx_range cfg) < snd (dx_range cfg)" using assms(1) by (simp add: dx_range_def)
  have ry: "fst (dy_range cfg) < snd (dy_range cfg)" using assms(1) by (simp add: dy_range_def)
  have rz: "fst (dz_range cfg) < snd (dz_range cfg)" using assms(1) by (simp add: dz_range_def)
  have rt: "fst (dtheta_range cfg) < snd (dtheta_range cfg)"
    using assms(2) by (simp add: dtheta_range_def)
  show ?thesis
    using assms(3-6)
    by (simp add: getUnscaledActions_ok rp rx ry rz rt decodeActions_Inr_iff
        scale_unscale)
qed


lemma scaleValue_in_range:
  assumes r: "fst r \<le> snd r" and u: "normalized u"
  shows "in_range (scaleValue u r) r"
proof -
  define d where "d = snd r - fst r"
  define h where "h = 0.5 * (u + 1)"
  have d: "0 \<le> d" using r by (simp add: d_def)
  have h: "0 \<le> h" "h \<le> 1" using u by (simp_all add: normalized_def h_def)
  have lo: "0 \<le> h * d" using h(1) d by (rule mult_nonneg_nonneg)
  have "h * d \<le> 1 * d" using h(2) d by (rule mult_right_mono)
  then have hi: "h * d \<le> d" by simp
  have sv: "scaleValue u r = h * d + fst r"
    by (simp add: scaleValue_def h_def d_def)
  show ?thesis
    unfolding in_range_def sv using lo hi by (simp add: d_def)
qed

lemma scaleValue_out_of_range:
  assumes r: "fst r < snd r" and u: "\<not> normalized u"
  shows "\<not> in_range (scaleValue u r) r"
proof -
  define d where "d = snd r - fst r"
  define h where "h = 0.5 * (u + 1)"
  have d: "0 < d" using r by (simp add: d_def)
  have sv: "scaleValue u r = h * d + fst r"
    by (simp add: scaleValue_def h_def d_def)
  from u consider "h < 0" | "1 < h" by (auto simp: normalized_def h_def)
  then show ?thesis
  proof cases
    case 1
    then have "h * d < 0" using d by (rule mult_neg_pos)
    then show ?thesis unfolding in_range_def sv by simp
  next
    case 2
    then have "1 * d < h * d" using d by (rule mult_strict_right_mono)
    then show ?thesis unfolding in_range_def sv by (simp add: d_def)
  qed
qed

text \<open>
  Claim C2.  Row \<open>i\<close> of the scaled output of \<open>decodeActions\<close> is
  \<open>0.5 * (u + 1) * (max - min) + min\<close> in each dimension; a normalized input in
  \<open>[-1, 1]\<close> gives a value inside the configured range, and, as nothing is clamped, an
  input outside \<open>[-1, 1]\<close> gives a value outside the range (when the range is not a
  single point).
\<close>

theorem decodeActions_in_range:
  assumes dec: "decodeActions cfg up udx udy udz udth = Inr (ua, a)"
    and i: "i < length a"
  shows "a ! i = [0.5 * (up ! i + 1) * (1 - 0) + 0,
                  0.5 * (udx ! i + 1) * (dpos cfg - (- dpos cfg)) + (- dpos cfg),
                  0.5 * (udy ! i + 1) * (dpos cfg - (- dpos cfg)) + (- dpos cfg),
                  0.5 * (udz ! i + 1) * (dpos cfg - (- dpos cfg)) + (- dpos cfg),
                  0.5 * (udth ! i + 1) * (drot cfg - (- drot cfg)) + (- drot cfg)]
       \<and> (normalized (up ! i) \<longrightarrow> in_range (a ! i ! 0) (p_range cfg))
       \<and> (0 \<le> dpos cfg \<and> normalized (udx ! i) \<longrightarrow> in_range (a ! i ! 1) (dx_range cfg))
       \<and> (0 \<le> dpos cfg \<and> normalized (udy ! i) \<longrightarrow> in_range (a ! i ! 2) (dy_range cfg))
       \<and> (0 \<le> dpos cfg \<and> normalized (udz ! i) \<longrightarrow> in_range (a ! i ! 3) (dz_range cfg))
       \<and> (0 \<le> drot cfg \<and> normalized (udth ! i) \<longrightarrow> in_range (a ! i ! 4) (dtheta_range cfg))
       \<and> (\<not> normalized (up ! i) \<longrightarrow> \<not> in_range (a ! i ! 0) (p_range cfg))
       \<and> (0 < dpos cfg \<and> \<not> normalized (udx ! i) \<longrightarrow> \<not> in_range (a ! i ! 1) (dx_range cfg))
       \<and> (0 < dpos cfg \<and> \<not> normalized (udy ! i) \<longrightarrow> \<not> in_range (a ! i ! 2) (dy_range cfg))
       \<and> (0 < dpos cfg \<and> \<not> normalized (udz ! i) \<longrightarrow> \<not> in_range (a ! i ! 3) (dz_range cfg))
       \<and> (0 < drot cfg \<and> \<not> normalized (udth ! i) \<longrightarrow> \<not> in_range (a ! i ! 4) (dtheta_range cfg))"
proof -
  from dec i have len: "i < length up"
    and row: "a ! i = [scaleValue (up ! i) (p_range cfg), scaleValue (udx ! i) (dx_range cfg),
                       scaleValue (udy ! i) (dy_range cfg), scaleValue (udz ! i) (dz_range cfg),
                       scaleValue (udth ! i) (dtheta_range cfg)]"
    by (auto simp: decodeActions_Inr_iff)
  have rp: "fst (p_range cfg) < snd (p_range cfg)" by (simp add: p_range_def)
  have formula: "a ! i = [0.5 * (up ! i + 1) * (1 - 0) + 0,
                  0.5 * (udx ! i + 1) * (dpos cfg - (- dpos cfg)) + (- dpos cfg),
                  0.5 * (udy ! i + 1) * (dpos cfg - (- dpos cfg)) + (- dpos cfg),
                  0.5 * (udz ! i + 1) * (dpos cfg - (- dpos cfg)) + (- dpos cfg),
                  0.5 * (udth ! i + 1) * (drot cfg - (- drot cfg)) + (- drot cfg)]"
    unfolding row scaleValue_def p_range_def dx_range_def dy_range_def dz_range_def
      dtheta_range_def fst_conv snd_conv ..
  have inp: "normalized (up ! i) \<longrightarrow> in_range (a ! i ! 0) (p_range cfg)"
    using rp by (simp add: row scaleValue_in_range)
  have inx: "0 \<le> dpos cfg \<and> normalized (udx ! i) \<longrightarrow> in_range (a ! i ! 1) (dx_range cfg)"
    by (simp add: row scaleValue_in_range dx_range_def)
  have iny: "0 \<le> dpos cfg \<and> normalized (udy ! i) \<longrightarrow> in_range (a ! i ! 2) (dy_range cfg)"
    by (simp add: row scaleValue_in_range dy_range_def)
  have inz: "0 \<le> dpos cfg \<and> normalized (udz ! i) \<longrightarrow> in_range (a ! i ! 3) (dz_range cfg)"
    by (simp add: row scaleValue_in_range dz_range_def)
  have int: "0 \<le> drot cfg \<and> normalized (udth ! i) \<longrightarrow> in_range (a ! i ! 4) (dtheta_range cfg)"
    by (simp add: row scaleValue_in_range dtheta_range_def)
  have outp: "\<not> normalized (up ! i) \<longrightarrow> \<not> in_range (a ! i ! 0) (p_range cfg)"
    using rp by (simp add: row scaleValue_out_of_range)
  have outx: "0 < dpos cfg \<and> \<not> normalized (udx ! i) \<longrightarrow> \<not> in_range (a ! i ! 1) (dx_range cfg)"
    by (simp add: row scaleValue_out_of_range dx_range_def)
  have outy: "0 < dpos cfg \<and> \<not> normalized (udy ! i) \<longrightarrow> \<not> in_range (a ! i ! 2) (dy_range cfg)"
    by (simp add: row scaleValue_out_of_range dy_range_def)
  have outz: "0 < dpos cfg \<and> \<not> normalized (udz ! i) \<longrightarrow> \<not> in_range (a ! i ! 3) (dz_range cfg)"
    by (simp add: row scaleValue_out_of_range dz_range_def)
  have outt: "0 < drot cfg \<and> \<not> normalized (udth ! i) \<longrightarrow> \<not> in_range (a ! i ! 4) (dtheta_range cfg)"
    by (simp add: row scaleValue_out_of_range dtheta_range_def)
  from formula inp inx iny inz int outp outx outy outz outt show ?thesis by blast
qed


lemma column_ok:
  "list_all (\<lambda>row. k < length row) m \<Longrightarrow> column m k = Inr (map (\<lambda>row. row ! k) m)"
  by (simp add: column_def)

lemma clampColumn_ok:
  "list_all (\<lambda>row. k < length row) m \<Longrightarrow>
   clampColumn m k r = Inr (map (\<lambda>row. clamp (row ! k) r) m)"
  by (simp add: clampColumn_def column_ok o_def)

lemma clamp_in_range: "fst r \<le> snd r \<Longrightarrow> in_range (clamp x r) r"
  by (auto simp: clamp_def in_range_def min_def max_def)

lemma unscaleValue_normalized:
  assumes r: "fst r < snd r" and x: "in_range x r"
  shows "normalized (unscaleValue x r)"
proof -
  define d where "d = snd r - fst r"
  have d: "0 < d" using r by (simp add: d_def)
  define q where "q = (x - fst r) / d"
  have "0 \<le> x - fst r" and "x - fst r \<le> d"
    using x by (simp_all add: in_range_def d_def)
  then have q: "0 \<le> q" "q \<le> 1"
    using d by (simp_all add: q_def)
  have "unscaleValue x r = 2 * q - 1"
    by (simp add: unscaleValue_def d_def q_def)
  then show ?thesis using q by (simp add: normalized_def)
qed

lemma list_all_less:
  "list_all (\<lambda>row. (n::nat) \<le> length row) m \<Longrightarrow> k < n \<Longrightarrow> list_all (\<lambda>row. k < length row) m"
  by (induction m) auto

lemma map_upt_nth: "map (\<lambda>i. f (xs ! i)) [0..<length xs] = map f xs"
  by (rule nth_equalityI) simp_all

lemma decodeActions_map:
  "decodeActions cfg (map f0 xs) (map f1 xs) (map f2 xs) (map f3 xs) (map f4 xs) =
     Inr (map (\<lambda>x. [f0 x, f1 x, f2 x, f3 x, f4 x]) xs,
          map (\<lambda>x. [scaleValue (f0 x) (p_range cfg), scaleValue (f1 x) (dx_range cfg),
                      scaleValue (f2 x) (dy_range cfg), scaleValue (f3 x) (dz_range cfg),
                      scaleValue (f4 x) (dtheta_range cfg)]) xs)"
proof -
  have u: "map (\<lambda>i. [map f0 xs ! i, map f1 xs ! i, map f2 xs ! i, map f3 xs ! i, map f4 xs ! i])
             [0..<length xs] = map (\<lambda>x. [f0 x, f1 x, f2 x, f3 x, f4 x]) xs"
    by (rule nth_equalityI) simp_all
  have a: "map (\<lambda>i. [scaleValue (map f0 xs ! i) (p_range cfg),
                       scaleValue (map f1 xs ! i) (dx_range cfg),
                       scaleValue (map f2 xs ! i) (dy_range cfg),
                       scaleValue (map f3 xs ! i) (dz_range cfg),
                       scaleValue (map f4 xs ! i) (dtheta_range cfg)]) [0..<length xs]
           = map (\<lambda>x. [scaleValue (f0 x) (p_range cfg), scaleValue (f1 x) (dx_range cfg),
                      scaleValue (f2 x) (dy_range cfg), scaleValue (f3 x) (dz_range cfg),
                      scaleValue (f4 x) (dtheta_range cfg)]) xs"
    by (rule nth_equalityI) simp_all
  show ?thesis
    unfolding decodeActions_Inr_iff using u a by simp
qed

lemma convertPlanAction_ok:
  assumes "0 < dpos cfg" and "0 < drot cfg"
    and cols: "list_all (\<lambda>row. 5 \<le> length row) plan"
  shows "convertPlanAction cfg plan =
     Inr (map (\<lambda>row. [unscaleValue (clamp (row ! 0) (p_range cfg)) (p_range cfg),
                        unscaleValue (clamp (row ! 1) (dx_range cfg)) (dx_range cfg),
                        unscaleValue (clamp (row ! 2) (dy_range cfg)) (dy_range cfg),
                        unscaleValue (clamp (row ! 3) (dz_range cfg)) (dz_range cfg),
                        unscaleValue (clamp (row ! 4) (dtheta_range cfg)) (dtheta_range cfg)]) plan,
          map (\<lambda>row. [clamp (row ! 0) (p_range cfg), clamp (row ! 1) (dx_range cfg),
                        clamp (row ! 2) (dy_range cfg), clamp (row ! 3) (dz_range cfg),
                        clamp (row ! 4) (dtheta_range cfg)]) plan)"
proof -
  have rp: "fst (p_range cfg) < snd (p_range cfg)" by (simp add: p_range_def)
  have rx: "fst (dx_range cfg) < snd (dx_range cfg)" using assms(1) by (simp add: dx_range_def)
  have ry: "fst (dy_range cfg) < snd (dy_range cfg)" using assms(1) by (simp add: dy_range_def)
  have rz: "fst (dz_range cfg) < snd (dz_range cfg)" using assms(1) by (simp add: dz_range_def)
  have rt: "fst (dtheta_range cfg) < snd (dtheta_range cfg)"
    using assms(2) by (simp add: dtheta_range_def)
  have c0: "clampColumn plan 0 r = Inr (map (\<lambda>row. clamp (row ! 0) r) plan)" for r
    by (rule clampColumn_ok, rule list_all_less [OF cols]) simp
  have c1: "clampColumn plan 1 r = Inr (map (\<lambda>row. clamp (row ! 1) r) plan)" for r
    by (rule clampColumn_ok, rule list_all_less [OF cols]) simp
  have c2: "clampColumn plan 2 r = Inr (map (\<lambda>row. clamp (row ! 2) r) plan)" for r
    by (rule clampColumn_ok, rule list_all_less [OF cols]) simp
  have c3: "clampColumn plan 3 r = Inr (map (\<lambda>row. clamp (row ! 3) r) plan)" for r
    by (rule clampColumn_ok, rule list_all_less [OF cols]) simp
  have c4: "clampColumn plan 4 r = Inr (map (\<lambda>row. clamp (row ! 4) r) plan)" for r
    by (rule clampColumn_ok, rule list_all_less [OF cols]) simp
  have g: "getUnscaledActions (map f plan) r = Inr (map (\<lambda>row. unscaleValue (f row) r) plan)"
    if "fst r < snd r" for f r
    by (simp add: getUnscaledActions_ok [OF that] o_def)
  show ?thesis
    unfolding convertPlanAction_def c0 c1 c2 c3 c4 bindE_Inr g [OF rp] g [OF rx] g [OF ry]
      g [OF rz] g [OF rt] decodeActions_map
    by (simp only: scale_unscale [OF rp] scale_unscale [OF rx] scale_unscale [OF ry]
        scale_unscale [OF rz] scale_unscale [OF rt])
qed

text \<open>
  Claim C3.  On every batch of planner actions with five columns, \<open>convertPlanAction\<close>
  returns without error; its unscaled output is the normalization of the clamped
  components, the clamped components lie in their ranges, every unscaled value lies in
  \<open>[-1, 1]\<close>, and the scaled output is the decoding of the unscaled output.
\<close>

theorem convertPlanAction_clamps:
  assumes "0 < dpos cfg" and "0 < drot cfg"
    and cols: "list_all (\<lambda>row. 5 \<le> length row) plan_action"
  shows "\<exists>u a. convertPlanAction cfg plan_action = Inr (u, a)
         \<and> length u = length plan_action \<and> length a = length plan_action
         \<and> (\<forall>i<length plan_action.
               u ! i = [unscaleValue (clamp (plan_action ! i ! 0) (p_range cfg)) (p_range cfg),
                        unscaleValue (clamp (plan_action ! i ! 1) (dx_range cfg)) (dx_range cfg),
                        unscaleValue (clamp (plan_action ! i ! 2) (dy_range cfg)) (dy_range cfg),
                        unscaleValue (clamp (plan_action ! i ! 3) (dz_range cfg)) (dz_range cfg),
                        unscaleValue (clamp (plan_action ! i ! 4) (dtheta_range cfg))
                          (dtheta_range cfg)]
             \<and> in_range (clamp (plan_action ! i ! 0) (p_range cfg)) (p_range cfg)
             \<and> in_range (clamp (plan_action ! i ! 1) (dx_range cfg)) (dx_range cfg)
             \<and> in_range (clamp (plan_action ! i ! 2) (dy_range cfg)) (dy_range cfg)
             \<and> in_range (clamp (plan_action ! i ! 3) (dz_range cfg)) (dz_range cfg)
             \<and> in_range (clamp (plan_action ! i ! 4) (dtheta_range cfg)) (dtheta_range cfg)
             \<and> list_all normalized (u ! i)
             \<and> a ! i = [scaleValue (u ! i ! 0) (p_range cfg), scaleValue (u ! i ! 1) (dx_range cfg),
                        scaleValue (u ! i ! 2) (dy_range cfg), scaleValue (u ! i ! 3) (dz_range cfg),
                        scaleValue (u ! i ! 4) (dtheta_range cfg)])"
proof -
  have rp: "fst (p_range cfg) < snd (p_range cfg)" by (simp add: p_range_def)
  have rx: "fst (dx_range cfg) < snd (dx_range cfg)" using assms(1) by (simp add: dx_range_def)
  have ry: "fst (dy_range cfg) < snd (dy_range cfg)" using assms(1) by (simp add: dy_range_def)
  have rz: "fst (dz_range cfg) < snd (dz_range cfg)" using assms(1) by (simp add: dz_range_def)
  have rt: "fst (dtheta_range cfg) < snd (dtheta_range cfg)"
    using assms(2) by (simp add: dtheta_range_def)
  have inr: "in_range (clamp x r) r" if "fst r < snd r" for x r
    using that by (intro clamp_in_range) simp
  have nrm: "normalized (unscaleValue (clamp x r) r)" if "fst r < snd r" for x r
    using that by (intro unscaleValue_normalized inr)
  show ?thesis
    unfolding convertPlanAction_ok [OF assms]
    by (simp add: inr nrm rp rx ry rz rt scale_unscale)
qed


lemma test_ranges [simp]:
  "p_range test_config = (0, 1)" "dx_range test_config = (- (1/20), 1/20)"
  "dy_range test_config = (- (1/20), 1/20)" "dz_range test_config = (- (1/20), 1/20)"
  "dtheta_range test_config = (- (1/4), 1/4)"
  by (simp_all add: p_range_def dx_range_def dy_range_def dz_range_def dtheta_range_def
      test_config_def)

theorem decode_unscaled_roundtrip_witness:
  "0 < dpos test_config \<and> 0 < drot test_config
   \<and> (\<exists>up udx udy udz udtheta ua.
           getUnscaledActions [1/4] (p_range test_config) = Inr up
         \<and> getUnscaledActions [1/40] (dx_range test_config) = Inr udx
         \<and> getUnscaledActions [- (1/20)] (dy_range test_config) = Inr udy
         \<and> getUnscaledActions [0] (dz_range test_config) = Inr udz
         \<and> getUnscaledActions [1/8] (dtheta_range test_config) = Inr udtheta
         \<and> decodeActions test_config up udx udy udz udtheta
             = Inr (ua, [[1/4, 1/40, - (1/20), 0, 1/8]]))"
proof -
  have h: "0 < dpos test_config" "0 < drot test_config"
    by (simp_all add: test_config_def)
  from decode_unscaled_roundtrip [OF h, of "[1/40]" "[1/4]" "[- (1/20)]" "[0]" "[1/8]"] h
  show ?thesis by simp
qed

theorem decodeActions_in_range_witness:
  "decodeActions test_config [0] [1] [- 1] [2] [1/2]
     = Inr ([[0, 1, - 1, 2, 1/2]], [[1/2, 1/20, - (1/20), 1/10, 1/8]])
   \<and> in_range (1/20) (dx_range test_config) \<and> \<not> in_range (1/10) (dz_range test_config)"
proof -
  have dec: "decodeActions test_config [0] [1] [- 1] [2] [1/2]
     = Inr ([[0, 1, - 1, 2, 1/2]], [[1/2, 1/20, - (1/20), 1/10, 1/8]])"
    by (simp add: decodeActions_def stack5_def scaleAction_def scaleValue_def)
  from decodeActions_in_range [OF dec, of 0] dec show ?thesis
    by (simp add: normalized_def test_config_def)
qed

lemma singleton_nth: "length xs = Suc 0 \<Longrightarrow> xs ! 0 = x \<Longrightarrow> xs = [x]"
  by (cases xs) auto

theorem convertPlanAction_clamps_witness:
  "0 < dpos test_config \<and> 0 < drot test_config
   \<and> convertPlanAction test_config [[2, 1/40, - 1, 0, 1/8]]
       = Inr ([[1, 1/2, - 1, 0, 1/2]], [[1, 1/40, - (1/20), 0, 1/8]])"
proof -
  have h: "0 < dpos test_config" "0 < drot test_config"
    by (simp_all add: test_config_def)
  from convertPlanAction_clamps [OF h, of "[[2, 1/40, - 1, 0, 1/8]]"] h
  show ?thesis
    by (auto simp: clamp_def unscaleValue_def scaleValue_def intro: singleton_nth)
qed

section \<open>Properties of the history windows\<close>

lemma broadcastBatch_Inr:
  "broadcastBatch n new = Inr nb \<Longrightarrow> length nb = n \<and> (length new = n \<longrightarrow> nb = new)"
  by (auto simp: broadcastBatch_def split: if_splits)

lemma setLast_Inr:
  assumes "setLast history new = Inr h'"
  shows "\<exists>nb. broadcastBatch (length history) new = Inr nb
           \<and> length h' = length history
           \<and> (\<forall>e<length history. history ! e \<noteq> []
                  \<and> h' ! e = (history ! e)[length (history ! e) - 1 := nb ! e])"
proof -
  from assms have ne: "\<not> list_ex (\<lambda>h. h = []) history"
    by (auto simp: setLast_def split: if_splits)
  from assms ne obtain nb where nb: "broadcastBatch (length history) new = Inr nb"
    and h': "h' = map (\<lambda>(h, x). h[length h - 1 := x]) (zip history nb)"
    by (cases "broadcastBatch (length history) new") (auto simp: setLast_def)
  from broadcastBatch_Inr [OF nb] have len: "length nb = length history" by simp
  have len': "length h' = length history" by (simp add: h' len)
  have slot: "history ! e \<noteq> [] \<and> h' ! e = (history ! e)[length (history ! e) - 1 := nb ! e]"
    if e: "e < length history" for e
  proof
    from e have "history ! e \<in> set history" by (rule nth_mem)
    with ne show "history ! e \<noteq> []" by (auto simp: list_ex_iff)
    from e len show "h' ! e = (history ! e)[length (history ! e) - 1 := nb ! e]"
      by (simp add: h')
  qed
  show ?thesis
  proof (rule exI [of _ nb], intro conjI allI impI)
    show "broadcastBatch (length history) new = Inr nb" by (rule nb)
    show "length h' = length history" by (rule len')
  next
    fix e assume "e < length history"
    then show "history ! e \<noteq> []" using slot by simp
  next
    fix e assume "e < length history"
    then show "h' ! e = (history ! e)[length (history ! e) - 1 := nb ! e]" using slot by simp
  qed
qed

lemma roll_nth [simp]: "e < length history \<Longrightarrow> roll history ! e = rotate1 (history ! e)"
  by (simp add: roll_def)

lemma length_roll [simp]: "length (roll history) = length history"
  by (simp add: roll_def)

lemma shift_slot:
  assumes "xs \<noteq> []"
  shows "length ((rotate1 xs)[length (rotate1 xs) - 1 := x]) = length xs"
    and "last ((rotate1 xs)[length (rotate1 xs) - 1 := x]) = x"
    and "Suc i < length xs \<Longrightarrow> (rotate1 xs)[length (rotate1 xs) - 1 := x] ! i = xs ! Suc i"
proof -
  show "length ((rotate1 xs)[length (rotate1 xs) - 1 := x]) = length xs" by simp
  from assms show "last ((rotate1 xs)[length (rotate1 xs) - 1 := x]) = x"
    by (simp add: last_conv_nth)
  assume i: "Suc i < length xs"
  then have "(rotate1 xs)[length (rotate1 xs) - 1 := x] ! i = rotate1 xs ! i" by simp
  also have "\<dots> = xs ! (Suc i mod length xs)" using i by (simp add: nth_rotate1)
  also have "\<dots> = xs ! Suc i" using i by simp
  finally show "(rotate1 xs)[length (rotate1 xs) - 1 := x] ! i = xs ! Suc i" .
qed

lemma shifted_history:
  assumes "setLast (roll history) new = Inr h'"
  shows "\<exists>nb. broadcastBatch (length history) new = Inr nb
           \<and> length h' = length history
           \<and> (\<forall>e<length history.
                  length (h' ! e) = length (history ! e)
                \<and> last (h' ! e) = nb ! e
                \<and> (\<forall>i. Suc i < length (history ! e) \<longrightarrow> h' ! e ! i = history ! e ! Suc i))"
proof -
  from setLast_Inr [OF assms] obtain nb where
    nb: "broadcastBatch (length history) new = Inr nb"
    and len: "length h' = length history"
    and slots: "\<forall>e<length history. roll history ! e \<noteq> []
                  \<and> h' ! e = (roll history ! e)[length (roll history ! e) - 1 := nb ! e]"
    unfolding length_roll by (elim exE conjE)
  have slot: "length (h' ! e) = length (history ! e) \<and> last (h' ! e) = nb ! e
        \<and> (\<forall>i. Suc i < length (history ! e) \<longrightarrow> h' ! e ! i = history ! e ! Suc i)"
    if e: "e < length history" for e
  proof -
    from slots e have "roll history ! e \<noteq> []"
      and "h' ! e = (roll history ! e)[length (roll history ! e) - 1 := nb ! e]"
      by simp_all
    with e have ne: "history ! e \<noteq> []"
      and eq: "h' ! e = (rotate1 (history ! e))[length (rotate1 (history ! e)) - 1 := nb ! e]"
      by simp_all
    have a: "length (h' ! e) = length (history ! e)"
      unfolding eq by (rule shift_slot(1) [OF ne])
    have b: "last (h' ! e) = nb ! e"
      unfolding eq by (rule shift_slot(2) [OF ne])
    have c: "h' ! e ! i = history ! e ! Suc i" if "Suc i < length (history ! e)" for i
      unfolding eq by (rule shift_slot(3) [OF ne that])
    from a b c show ?thesis by simp
  qed
  show ?thesis
  proof (rule exI [of _ nb], intro conjI)
    show "broadcastBatch (length history) new = Inr nb" by (rule nb)
    show "length h' = length history" by (rule len)
    show "\<forall>e<length history.
            length (h' ! e) = length (history ! e) \<and> last (h' ! e) = nb ! e
          \<and> (\<forall>i. Suc i < length (history ! e) \<longrightarrow> h' ! e ! i = history ! e ! Suc i)"
      using slot by simp
  qed
qed

lemma bindE_InrE:
  assumes "bindE m f = Inr y"
  obtains x where "m = Inr x" and "f x = Inr y"
  using assms by (cases m) (simp_all add: bindE_def)

lemma getAction_Inr:
  assumes "getAction nets cfg ag vision force proprio evaluate = Inr (ag', out)"
  shows "\<exists>latest force' action.
           lastTimestep force = Inr latest
         \<and> view2 (length vision) (force_dim cfg) (normalizeForce nets latest (max_force cfg))
             = Inr force'
         \<and> setLast (roll (vision_history ag)) (centerCrop nets vision (vision_size cfg))
             = Inr (vision_history ag')
         \<and> setLast (roll (force_history ag)) force' = Inr (force_history ag')
         \<and> setLast (roll (action_history ag)) action = Inr (action_history ag')
         \<and> latent ag' = latent ag \<and> actor ag' = actor ag \<and> critic ag' = critic ag"
  using assms unfolding getAction_def Let_def
  apply (elim bindE_InrE)
  apply (clarsimp split: prod.splits)
  apply (rule exI, assumption)
  done


lemma test_reset: "resetEpisode test_config test_agent = Inr reset_agent"
  by (simp add: resetEpisode_def test_config_def test_agent_def reset_agent_def zeroFrame_def
      numeral_2_eq_2 eval_nat_numeral)

lemma upt_0_5: "[0..<5] = [0, 1, 2, 3, 4::nat]"
  by code_simp

lemma test_step:
  "getAction test_nets test_config test_agent [[[[3, 3], [3, 3]]]] [[[50, 60], [5, 10]]] [[0]] False
     = Inr (stepped_agent, ([[0, 1, - 1, 0, 1/2]], [[1/2, 1/20, - (1/20), 0, 1/8]], 0))"
  by (simp add: getAction_def test_nets_def test_config_def test_agent_def stepped_agent_def
      lastTimestep_def view2_def setLast_def roll_def broadcastBatch_def viewRows_def cat1_def
      column_def decodeActionsStar_def decodeActions_def stack5_def scaleAction_def
      scaleValue_def p_range_def dx_range_def dy_range_def dz_range_def dtheta_range_def
      upt_0_5)


lemma lastTimestep_Inr: "lastTimestep force = Inr latest \<Longrightarrow> latest = map last force"
  by (auto simp: lastTimestep_def split: if_splits)

lemma shiftedI:
  assumes "length new = length old" and "last new = x"
    and "\<And>i. Suc i < length old \<Longrightarrow> new ! i = old ! Suc i"
  shows "shifted old new x"
  unfolding shifted_def list_all_iff using assms by auto

lemma shifted_histories:
  assumes "setLast (roll history) new = Inr h'"
  shows "\<exists>nb. broadcastBatch (length history) new = Inr nb
           \<and> length h' = length history
           \<and> (\<forall>e<length history. shifted (history ! e) (h' ! e) (nb ! e))"
proof -
  from shifted_history [OF assms] obtain nb where
    nb: "broadcastBatch (length history) new = Inr nb"
    and len: "length h' = length history"
    and slots: "\<forall>e<length history.
                  length (h' ! e) = length (history ! e)
                \<and> last (h' ! e) = nb ! e
                \<and> (\<forall>i. Suc i < length (history ! e) \<longrightarrow> h' ! e ! i = history ! e ! Suc i)"
    by (elim exE conjE)
  have "shifted (history ! e) (h' ! e) (nb ! e)" if "e < length history" for e
    using slots that by (intro shiftedI) simp_all
  with nb len show ?thesis by (intro exI [of _ nb]) simp
qed

text \<open>
  Claim C4.  After one \<open>getAction\<close> call that returns, in every environment slot the
  vision and force windows are shifted by one: the last slot holds the preprocessed new
  observation (the center-cropped frame; the latest force timestep normalized by
  \<open>max_force\<close>), every slot \<open>i\<close> before the last holds what slot \<open>i + 1\<close> held, and with
  two or more slots the first holds what the second held.  This holds for every agent
  state and every window length.
\<close>

theorem getAction_shifts_history:
  assumes "getAction nets cfg ag vision force proprio evaluate = Inr (ag', out)"
  shows "\<exists>force' vb fb.
           view2 (length vision) (force_dim cfg)
             (normalizeForce nets (map last force) (max_force cfg)) = Inr force'
         \<and> broadcastBatch (length (vision_history ag))
               (centerCrop nets vision (vision_size cfg)) = Inr vb
         \<and> broadcastBatch (length (force_history ag)) force' = Inr fb
         \<and> length (vision_history ag') = length (vision_history ag)
         \<and> length (force_history ag') = length (force_history ag)
         \<and> (\<forall>e<length (vision_history ag).
                shifted (vision_history ag ! e) (vision_history ag' ! e) (vb ! e))
         \<and> (\<forall>e<length (force_history ag).
                shifted (force_history ag ! e) (force_history ag' ! e) (fb ! e))"
proof -
  from getAction_Inr [OF assms] obtain latest force' where
    latest: "lastTimestep force = Inr latest"
    and force': "view2 (length vision) (force_dim cfg)
                   (normalizeForce nets latest (max_force cfg)) = Inr force'"
    and vh: "setLast (roll (vision_history ag)) (centerCrop nets vision (vision_size cfg))
               = Inr (vision_history ag')"
    and fh: "setLast (roll (force_history ag)) force' = Inr (force_history ag')"
    by (elim exE conjE)
  from shifted_histories [OF vh] obtain vb where
    vb: "broadcastBatch (length (vision_history ag))
           (centerCrop nets vision (vision_size cfg)) = Inr vb"
    "length (vision_history ag') = length (vision_history ag)"
    "\<forall>e<length (vision_history ag).
        shifted (vision_history ag ! e) (vision_history ag' ! e) (vb ! e)"
    by (elim exE conjE)
  from shifted_histories [OF fh] obtain fb where
    fb: "broadcastBatch (length (force_history ag)) force' = Inr fb"
    "length (force_history ag') = length (force_history ag)"
    "\<forall>e<length (force_history ag).
        shifted (force_history ag ! e) (force_history ag' ! e) (fb ! e)"
    by (elim exE conjE)
  from force' have "view2 (length vision) (force_dim cfg)
             (normalizeForce nets (map last force) (max_force cfg)) = Inr force'"
    unfolding lastTimestep_Inr [OF latest] .
  with vb fb show ?thesis
    by (intro exI [of _ force'] exI [of _ vb] exI [of _ fb] conjI)
qed

theorem getAction_shifts_history_witness:
  "getAction test_nets test_config test_agent [[[[3, 3], [3, 3]]]] [[[50, 60], [5, 10]]] [[0]] False
     = Inr (stepped_agent, ([[0, 1, - 1, 0, 1/2]], [[1/2, 1/20, - (1/20), 0, 1/8]], 0))
   \<and> shifted (vision_history test_agent ! 0) (vision_history stepped_agent ! 0) [[[3, 3], [3, 3]]]
   \<and> shifted (force_history test_agent ! 0) (force_history stepped_agent ! 0) [1/2, 1]"
proof -
  have "\<exists>force' vb fb.
           view2 (length [[[[3, 3], [3, 3::real]]]]) (force_dim test_config)
             (normalizeForce test_nets (map last [[[50, 60], [5, 10]]]) (max_force test_config))
             = Inr force'
         \<and> broadcastBatch (length (vision_history test_agent))
               (centerCrop test_nets [[[[3, 3], [3, 3]]]] (vision_size test_config)) = Inr vb
         \<and> broadcastBatch (length (force_history test_agent)) force' = Inr fb
         \<and> length (vision_history stepped_agent) = length (vision_history test_agent)
         \<and> length (force_history stepped_agent) = length (force_history test_agent)
         \<and> (\<forall>e<length (vision_history test_agent).
                shifted (vision_history test_agent ! e) (vision_history stepped_agent ! e) (vb ! e))
         \<and> (\<forall>e<length (force_history test_agent).
                shifted (force_history test_agent ! e) (force_history stepped_agent ! e) (fb ! e))"
    by (rule getAction_shifts_history [OF test_step])
  then obtain force' vb fb where
    f: "view2 (length [[[[3, 3], [3, 3::real]]]]) (force_dim test_config)
             (normalizeForce test_nets (map last [[[50, 60], [5, 10]]]) (max_force test_config))
             = Inr force'"
    and vb: "broadcastBatch (length (vision_history test_agent))
               (centerCrop test_nets [[[[3, 3], [3, 3]]]] (vision_size test_config)) = Inr vb"
    and fb: "broadcastBatch (length (force_history test_agent)) force' = Inr fb"
    and sv: "\<forall>e<length (vision_history test_agent).
                shifted (vision_history test_agent ! e) (vision_history stepped_agent ! e) (vb ! e)"
    and sf: "\<forall>e<length (force_history test_agent).
                shifted (force_history test_agent ! e) (force_history stepped_agent ! e) (fb ! e)"
    by (elim exE conjE)
  from f have force': "force' = [[1/2, 1]]"
    by (simp add: view2_def test_nets_def test_config_def)
  from vb have vb': "vb = [[[[3, 3], [3, 3]]]]"
    by (simp add: broadcastBatch_def test_nets_def test_agent_def)
  from fb have fb': "fb = [[1/2, 1]]"
    by (simp add: broadcastBatch_def force' test_agent_def)
  from sv have "shifted (vision_history test_agent ! 0) (vision_history stepped_agent ! 0) (vb ! 0)"
    by (simp add: test_agent_def)
  moreover from sf
  have "shifted (force_history test_agent ! 0) (force_history stepped_agent ! 0) (fb ! 0)"
    by (simp add: test_agent_def)
  ultimately show ?thesis
    using test_step by (simp add: vb' fb')
qed


lemma setLast_roll_shape:
  assumes "setLast (roll history) new = Inr h'"
    and "length history = n" and "list_all (\<lambda>h. length h = k) history"
  shows "length h' = n \<and> list_all (\<lambda>h. length h = k) h'"
proof -
  from shifted_history [OF assms(1)] have len: "length h' = length history"
    and slots: "\<forall>e<length history. length (h' ! e) = length (history ! e)"
    by auto
  from assms(3) have "\<forall>e<length history. length (history ! e) = k"
    by (simp add: list_all_length)
  with slots len have "\<forall>e<length h'. length (h' ! e) = k" by simp
  then have "list_all (\<lambda>h. length h = k) h'" by (simp add: list_all_length)
  with len assms(2) show ?thesis by simp
qed

lemma list_all_replicate: "P x \<Longrightarrow> list_all P (replicate n x)"
  by (simp add: list_all_iff)

lemma resetEpisode_shape:
  assumes "0 < seq_len cfg"
  shows "\<exists>ag'. resetEpisode cfg ag = Inr ag' \<and> history_shape cfg ag' \<and> histories_zero ag'"
proof -
  define ag' where "ag' = ag\<lparr>
        vision_history :=
          replicate (num_data_gen_envs cfg) (replicate (seq_len cfg) (zeroFrame cfg)),
        force_history :=
          replicate (num_data_gen_envs cfg) (replicate (seq_len cfg) (replicate (force_dim cfg) 0)),
        action_history :=
          replicate (num_data_gen_envs cfg)
            (replicate (seq_len cfg - 1) (replicate (action_dim cfg) 0))\<rparr>"
  have r: "resetEpisode cfg ag = Inr ag'"
    using assms by (simp add: resetEpisode_def ag'_def)
  have sh: "history_shape cfg ag'"
    by (simp add: history_shape_def ag'_def list_all_replicate)
  have z: "histories_zero ag'"
    unfolding histories_zero_def ag'_def zeroFrame_def
    by (simp add: list_all_replicate)
  from r sh z show ?thesis by blast
qed

lemma getAction_shape:
  assumes sh: "history_shape cfg ag"
    and step: "getAction nets cfg ag vision force proprio evaluate = Inr (ag', out)"
  shows "history_shape cfg ag'"
proof -
  from getAction_Inr [OF step] obtain force' action where
    vh: "setLast (roll (vision_history ag)) (centerCrop nets vision (vision_size cfg))
               = Inr (vision_history ag')"
    and fh: "setLast (roll (force_history ag)) force' = Inr (force_history ag')"
    and ah: "setLast (roll (action_history ag)) action = Inr (action_history ag')"
    by (elim exE conjE)
  from sh have
    v: "length (vision_history ag) = num_data_gen_envs cfg"
       "list_all (\<lambda>h. length h = seq_len cfg) (vision_history ag)"
    and f: "length (force_history ag) = num_data_gen_envs cfg"
       "list_all (\<lambda>h. length h = seq_len cfg) (force_history ag)"
    and a: "length (action_history ag) = num_data_gen_envs cfg"
       "list_all (\<lambda>h. length h = seq_len cfg - 1) (action_history ag)"
    by (simp_all add: history_shape_def)
  from setLast_roll_shape [OF vh v] setLast_roll_shape [OF fh f] setLast_roll_shape [OF ah a]
  show ?thesis by (simp add: history_shape_def)
qed

text \<open>
  Claim C5, amended.  The vision and force windows have \<open>seq_len\<close> slots and the window
  of prior actions has \<open>seq_len - 1\<close> slots, in every environment slot: with
  \<open>seq_len > 0\<close>, \<open>resetEpisode\<close> returns a state of this shape in which every buffer is
  zero, and every \<open>getAction\<close> call that returns preserves the shape.
\<close>

theorem history_shape_invariant:
  "(0 < seq_len cfg \<longrightarrow>
      (\<exists>ag'. resetEpisode cfg ag = Inr ag' \<and> history_shape cfg ag' \<and> histories_zero ag'))
   \<and> (history_shape cfg ag1
        \<and> getAction nets cfg ag1 vision force proprio evaluate = Inr (ag2, out)
      \<longrightarrow> history_shape cfg ag2)"
  using resetEpisode_shape getAction_shape by blast

text \<open>
  As stated, claim C5 fails: after \<open>resetEpisode\<close> with \<open>seq_len = 2\<close> the window of prior
  actions has one slot, not two.
\<close>

theorem action_history_length_counterexample:
  "resetEpisode test_config test_agent = Inr reset_agent
   \<and> \<not> claimed_history_shape test_config reset_agent"
proof -
  have "\<not> claimed_history_shape test_config reset_agent"
    by (simp add: claimed_history_shape_def reset_agent_def test_config_def)
  with test_reset show ?thesis by simp
qed

theorem history_shape_invariant_witness:
  "0 < seq_len test_config
   \<and> resetEpisode test_config test_agent = Inr reset_agent
   \<and> history_shape test_config reset_agent \<and> histories_zero reset_agent
   \<and> history_shape test_config test_agent
   \<and> getAction test_nets test_config test_agent [[[[3, 3], [3, 3]]]] [[[50, 60], [5, 10]]] [[0]]
         False
       = Inr (stepped_agent, ([[0, 1, - 1, 0, 1/2]], [[1/2, 1/20, - (1/20), 0, 1/8]], 0))
   \<and> history_shape test_config stepped_agent"
proof -
  have pos: "0 < seq_len test_config" by (simp add: test_config_def)
  have sh: "history_shape test_config test_agent"
    by (simp add: history_shape_def test_config_def test_agent_def)
  note c5 = history_shape_invariant [of test_config test_agent test_agent test_nets "[[[[3, 3], [3, 3]]]]"
      "[[[50, 60], [5, 10]]]" "[[0]]" False stepped_agent
      "([[0, 1, - 1, 0, 1/2]], [[1/2, 1/20, - (1/20), 0, 1/8]], 0)"]
  from c5 pos have "history_shape test_config reset_agent \<and> histories_zero reset_agent"
    by (simp add: test_reset)
  moreover from c5 sh test_step have "history_shape test_config stepped_agent"
    by blast
  ultimately show ?thesis using pos sh test_reset test_step by simp
qed

section \<open>Properties of getWeights and setWeights\<close>

text \<open>
  Claim C10.  \<open>setWeights(None)\<close> returns without error and leaves the agent unchanged;
  \<open>getWeights\<close> returns the state dicts of latent, actor and critic in this order; and
  for a triple of state dicts that the three models accept, \<open>setWeights\<close> loads the
  first into latent, the second into actor and the third into critic, after which
  \<open>getWeights\<close> returns exactly that triple.  The history windows are not touched.
\<close>

theorem setWeights_getWeights:
  "setWeights None ag = Inr ag
   \<and> getWeights ag = (latent ag, actor ag, critic ag)
   \<and> (compatible w0 (latent ag) \<and> compatible w1 (actor ag) \<and> compatible w2 (critic ag) \<longrightarrow>
        (\<exists>ag'. setWeights (Some (w0, w1, w2)) ag = Inr ag'
             \<and> latent ag' = w0 \<and> actor ag' = w1 \<and> critic ag' = w2
             \<and> getWeights ag' = (w0, w1, w2)
             \<and> vision_history ag' = vision_history ag
             \<and> force_history ag' = force_history ag
             \<and> action_history ag' = action_history ag))"
  by (simp add: getWeights_def load_state_dict_def)

theorem setWeights_getWeights_witness:
  "compatible (fst test_weights) (latent weights_agent)
   \<and> compatible (fst (snd test_weights)) (actor weights_agent)
   \<and> compatible (snd (snd test_weights)) (critic weights_agent)
   \<and> setWeights (Some test_weights) weights_agent
       = Inr (weights_agent\<lparr>latent := fst test_weights, actor := fst (snd test_weights),
                critic := snd (snd test_weights)\<rparr>)
   \<and> getWeights (weights_agent\<lparr>latent := fst test_weights, actor := fst (snd test_weights),
                critic := snd (snd test_weights)\<rparr>) = test_weights
   \<and> setWeights None weights_agent = Inr weights_agent"
proof -
  have c: "compatible (fst test_weights) (latent weights_agent)"
    "compatible (fst (snd test_weights)) (actor weights_agent)"
    "compatible (snd (snd test_weights)) (critic weights_agent)"
    by (auto simp: compatible_def test_weights_def weights_agent_def)
  from setWeights_getWeights [of weights_agent "fst test_weights" "fst (snd test_weights)"
      "snd (snd test_weights)"] c
  obtain ag' where "setWeights (Some test_weights) weights_agent = Inr ag'"
    and "latent ag' = fst test_weights" and "actor ag' = fst (snd test_weights)"
    and "critic ag' = snd (snd test_weights)" and "getWeights ag' = test_weights"
    and "vision_history ag' = vision_history weights_agent"
    and "force_history ag' = force_history weights_agent"
    and "action_history ag' = action_history weights_agent"
    by auto
  then show ?thesis using c
    by (simp add: getWeights_def)
qed

section \<open>Properties of softTargetUpdate and updateSLAC\<close>

lemma broadcast2_same:
  "length a = length b \<Longrightarrow> broadcast2 f a b = Inr (map (\<lambda>(x, y). f x y) (zip a b))"
  by (simp add: broadcast2_def)

lemma copy_into_same: "length x = length t \<Longrightarrow> copy_into t x = Inr x"
  by (simp add: copy_into_def)

lemma zip_swap_map: "map (\<lambda>(x, y). f x y) (zip xs ys) = map (\<lambda>(y, x). f x y) (zip ys xs)"
  by (induction xs ys rule: list_induct2') simp_all

lemma softUpdateParams_ok:
  assumes "list_all2 (\<lambda>t l. length t = length l) ts ls"
  shows "softUpdateParams tau' ts ls =
           Inr (map (\<lambda>(t, l). map (\<lambda>(tv, lv). tau' * lv + (1 - tau') * tv) (zip t l)) (zip ts ls))"
  using assms
proof (induction ts ls rule: list_all2_induct)
  case Nil
  show ?case by simp
next
  case (Cons t ts l ls)
  have b: "broadcast2 (\<lambda>l t. tau' * l + (1 - tau') * t) l t
             = Inr (map (\<lambda>(tv, lv). tau' * lv + (1 - tau') * tv) (zip t l))"
    using Cons.hyps(1) by (simp add: broadcast2_same zip_swap_map [of _ l t])
  have c: "copy_into t (map (\<lambda>(tv, lv). tau' * lv + (1 - tau') * tv) (zip t l))
             = Inr (map (\<lambda>(tv, lv). tau' * lv + (1 - tau') * tv) (zip t l))"
    using Cons.hyps(1) by (simp add: copy_into_same)
  show ?case by (simp add: b c Cons.IH)
qed

lemma polyak_tau_one:
  assumes "list_all2 (\<lambda>t l. length t = length l) ts ls"
  shows "map (\<lambda>(t, l). map (\<lambda>(tv, lv). 1 * lv + (1 - 1) * tv) (zip t l)) (zip ts (ls::params)) = ls"
  using assms
proof (induction ts ls rule: list_all2_induct)
  case Nil
  show ?case by simp
next
  case (Cons t ts l ls)
  have "map (\<lambda>(tv, lv). 1 * lv + (1 - 1) * tv) (zip t l) = map snd (zip t l)"
    by (rule map_cong) auto
  also have "\<dots> = l" using Cons.hyps(1) by simp
  finally show ?case using Cons.IH by simp
qed

lemma polyak_tau_zero:
  assumes "list_all2 (\<lambda>t l. length t = length l) ts ls"
  shows "map (\<lambda>(t, l). map (\<lambda>(tv, lv). 0 * lv + (1 - 0) * tv) (zip t l)) (zip (ts::params) ls) = ts"
  using assms
proof (induction ts ls rule: list_all2_induct)
  case Nil
  show ?case by simp
next
  case (Cons t ts l ls)
  have "map (\<lambda>(tv, lv). 0 * lv + (1 - 0) * tv) (zip t l) = map fst (zip t l)"
    by (rule map_cong) auto
  also have "\<dots> = t" using Cons.hyps(1) by simp
  finally show ?case using Cons.IH by simp
qed

text \<open>
  Claim C6.  When every target-critic parameter has the size of its live counterpart,
  one call of \<open>softTargetUpdate\<close> replaces each target parameter by
  \<open>tau * live + (1 - tau) * target\<close>, elementwise, and changes nothing else; with
  \<open>tau = 1\<close> the target parameters become the live parameters, and with \<open>tau = 0\<close> the
  Trainer state is unchanged.
\<close>

theorem softTargetUpdate_polyak:
  assumes shapes: "list_all2 (\<lambda>t l. length t = length l) (critic_target_params self)
                     (critic_params self)"
  shows "softTargetUpdate cfg self =
           Inr (self\<lparr>critic_target_params :=
                  map (\<lambda>(t, l). map (\<lambda>(tv, lv). tau cfg * lv + (1 - tau cfg) * tv) (zip t l))
                    (zip (critic_target_params self) (critic_params self))\<rparr>)
       \<and> (tau cfg = 1 \<longrightarrow>
            softTargetUpdate cfg self = Inr (self\<lparr>critic_target_params := critic_params self\<rparr>))
       \<and> (tau cfg = 0 \<longrightarrow> softTargetUpdate cfg self = Inr self)"
proof -
  have gen: "softTargetUpdate cfg self =
           Inr (self\<lparr>critic_target_params :=
                  map (\<lambda>(t, l). map (\<lambda>(tv, lv). tau cfg * lv + (1 - tau cfg) * tv) (zip t l))
                    (zip (critic_target_params self) (critic_params self))\<rparr>)"
    by (simp add: softTargetUpdate_def softUpdateParams_ok [OF shapes])
  have one: "softTargetUpdate cfg self = Inr (self\<lparr>critic_target_params := critic_params self\<rparr>)"
    if "tau cfg = 1"
    unfolding gen that polyak_tau_one [OF shapes] ..
  have zero: "softTargetUpdate cfg self = Inr self" if "tau cfg = 0"
    unfolding gen that polyak_tau_zero [OF shapes] by simp
  from gen one zero show ?thesis by blast
qed


theorem softTargetUpdate_polyak_witness:
  "list_all2 (\<lambda>t l. length t = length l) (critic_target_params test_trainer)
     (critic_params test_trainer)
   \<and> softTargetUpdate test_config test_trainer
       = Inr (test_trainer\<lparr>critic_target_params := [[4, 5], [6]]\<rparr>)
   \<and> softTargetUpdate (test_config\<lparr>tau := 1\<rparr>) test_trainer
       = Inr (test_trainer\<lparr>critic_target_params := [[1, 2], [3]]\<rparr>)
   \<and> softTargetUpdate (test_config\<lparr>tau := 0\<rparr>) test_trainer = Inr test_trainer"
proof -
  have sh: "list_all2 (\<lambda>t l. length t = length l) (critic_target_params test_trainer)
     (critic_params test_trainer)"
    by (simp add: test_trainer_def)
  have a: "softTargetUpdate test_config test_trainer
       = Inr (test_trainer\<lparr>critic_target_params := [[4, 5], [6]]\<rparr>)"
    using softTargetUpdate_polyak [OF sh, of test_config] by (simp add: test_trainer_def test_config_def)
  have b: "softTargetUpdate (test_config\<lparr>tau := 1\<rparr>) test_trainer
       = Inr (test_trainer\<lparr>critic_target_params := [[1, 2], [3]]\<rparr>)"
    using softTargetUpdate_polyak [OF sh, of "test_config\<lparr>tau := 1\<rparr>"] by (simp add: test_trainer_def)
  have c: "softTargetUpdate (test_config\<lparr>tau := 0\<rparr>) test_trainer = Inr test_trainer"
  proof -
    have "tau (test_config\<lparr>tau := 0\<rparr>) = 0" by simp
    with softTargetUpdate_polyak [OF sh, of "test_config\<lparr>tau := 0\<rparr>"] show ?thesis by blast
  qed
  from sh a b c show ?thesis by simp
qed

lemma lastStep_Inr: "lastStep t = Inr r \<Longrightarrow> r = map last t"
  by (auto simp: lastStep_def split: if_splits)

lemma targetQ_nth:
  assumes tq: "targetQ N cfg self next_z nfa b = Inr target_q"
    and s: "actor_sample N (actor_params self) nfa = (next_action, next_log_pi)"
    and q: "q_values N (critic_target_params self) next_z next_action = (next_q1, next_q2)"
    and len: "length next_q1 = n" "length next_q2 = n" "length next_log_pi = n"
      "length (reward_batch b) = n" "length (done_batch b) = n"
  shows "length target_q = n
       \<and> (\<forall>i<n. target_q ! i =
              last (reward_batch b ! i)
              + (1 - last (done_batch b ! i)) * discount cfg
                * (min (next_q1 ! i) (next_q2 ! i) - alpha self * next_log_pi ! i))"
proof -
  have m: "broadcast2 min next_q1 next_q2 = Inr (map (\<lambda>(x, y). min x y) (zip next_q1 next_q2))"
    using len by (simp add: broadcast2_same)
  define min_q where "min_q = map (\<lambda>(x, y). min x y) (zip next_q1 next_q2)"
  have lm: "length min_q = n" using len by (simp add: min_q_def)
  define next_q where
    "next_q = map (\<lambda>(q, l). q - l) (zip min_q (map (\<lambda>l. alpha self * l) next_log_pi))"
  have nq: "broadcast2 (\<lambda>q l. q - l) min_q (map (\<lambda>l. alpha self * l) next_log_pi) = Inr next_q"
    using len lm by (simp add: broadcast2_same next_q_def)
  have lnq: "length next_q = n" using len lm by (simp add: next_q_def)
  from tq obtain reward dones bootstrap0 where
    r: "lastStep (reward_batch b) = Inr reward" and d: "lastStep (done_batch b) = Inr dones"
    and bs0: "broadcast2 (\<lambda>d q. d * q) (map (\<lambda>d. (1 - d) * discount cfg) dones) next_q
                = Inr bootstrap0"
    and rest: "broadcast2 (\<lambda>r x. r + x) reward bootstrap0 = Inr target_q"
    unfolding targetQ_def s q prod.case m min_q_def [symmetric] bindE_Inr nq
    by (elim bindE_InrE)
  have r': "reward = map last (reward_batch b)" by (rule lastStep_Inr [OF r])
  have d': "dones = map last (done_batch b)" by (rule lastStep_Inr [OF d])
  define bootstrap where
    "bootstrap = map (\<lambda>(d, q). d * q) (zip (map (\<lambda>d. (1 - d) * discount cfg) dones) next_q)"
  have bs: "broadcast2 (\<lambda>d q. d * q) (map (\<lambda>d. (1 - d) * discount cfg) dones) next_q
              = Inr bootstrap"
    using len lnq by (simp add: broadcast2_same bootstrap_def d')
  have lbs: "length bootstrap = n" using len lnq by (simp add: bootstrap_def d')
  from bs0 bs have "bootstrap0 = bootstrap" by simp
  with rest have t: "target_q = map (\<lambda>(r, x). r + x) (zip reward bootstrap)"
    using len lbs by (simp add: broadcast2_same r')
  have l: "length target_q = n" using len lbs by (simp add: t r')
  have "target_q ! i = last (reward_batch b ! i)
              + (1 - last (done_batch b ! i)) * discount cfg
                * (min (next_q1 ! i) (next_q2 ! i) - alpha self * next_log_pi ! i)"
    if "i < n" for i
    using that len lm lnq lbs
    by (simp add: t r' d' bootstrap_def next_q_def min_q_def)
  with l show ?thesis by simp
qed


lemma updateSLAC_Inr:
  assumes "updateSLAC N cfg self b
             = Inr (self', td_error, (actor_loss, critic_loss, alpha_loss, entropy))"
  shows "\<exists>z next_z fa nfa target_q last_action loss1 loss2.
           posterior N (latent_params self) b = Inr (z, next_z, fa, nfa)
         \<and> targetQ N cfg self next_z nfa b = Inr target_q
         \<and> lastStep (action_batch b) = Inr last_action
         \<and> mse_loss (fst (q_values N (critic_params self) z last_action)) target_q = Inr loss1
         \<and> mse_loss (snd (q_values N (critic_params self) z last_action)) target_q = Inr loss2
         \<and> critic_loss = loss1 + loss2
         \<and> critic_params self' = critic_opt_step N (critic_params self) z last_action target_q"
  using assms unfolding updateSLAC_def
  apply (erule_tac bindE_InrE)
  apply (clarsimp split: prod.splits)
  apply (erule_tac bindE_InrE)
  apply (erule_tac bindE_InrE)
  apply (clarsimp split: prod.splits)
  apply (erule_tac bindE_InrE)
  apply (erule_tac bindE_InrE)
  apply (erule_tac bindE_InrE)
  apply (erule_tac bindE_InrE)
  apply (erule_tac bindE_InrE)
  apply (clarsimp simp: Let_def split: prod.splits)
  apply (erule_tac bindE_InrE)
  apply (erule_tac bindE_InrE)
  apply (erule_tac bindE_InrE)
  apply (erule_tac bindE_InrE)
  apply (erule_tac bindE_InrE)
  apply clarsimp
  done


lemma test_updateSLAC:
  "updateSLAC test_numerics test_config test_trainer test_batch
     = Inr (test_trainer\<lparr>critic_params := [[2, 3], [4]], actor_params := [[1]],
              log_alpha := 0, alpha := 1,
              trace := [OptimizerStep CriticOpt, OptimizerStep ActorOpt, OptimizerStep AlphaOpt]\<rparr>,
            [3/2, 3/2], (- 1, 7, 0, - (3/2)))"
  by (simp add: updateSLAC_def targetQ_def test_numerics_def test_config_def test_trainer_def
      test_batch_def broadcast2_def lastStep_def mse_loss_def mean_def power2_eq_square)

text \<open>
  Claim C7.  In a call of \<open>updateSLAC\<close> that returns, the critic loss is the sum of the
  two mean-squared errors of the live critic's Q estimates against one TD target, and
  for every sample \<open>i\<close> of the batch this target is
  \<open>reward + (1 - done) * discount * next_q\<close>, with reward and done taken at the last
  timestep and \<open>next_q\<close> the minimum of the two target-critic estimates at the next
  latent and the sampled next action, minus \<open>alpha\<close> times that action's
  log-probability.
\<close>

theorem updateSLAC_td_target:
  assumes upd: "updateSLAC N cfg self b
                  = Inr (self', td_error, (actor_loss, critic_loss, alpha_loss, entropy))"
    and post: "posterior N (latent_params self) b = Inr (z, next_z, fa, nfa)"
    and s: "actor_sample N (actor_params self) nfa = (next_action, next_log_pi)"
    and q: "q_values N (critic_target_params self) next_z next_action = (next_q1, next_q2)"
    and c: "q_values N (critic_params self) z (map last (action_batch b)) = (curr_q1, curr_q2)"
    and len: "length next_q1 = n" "length next_q2 = n" "length next_log_pi = n"
      "length (reward_batch b) = n" "length (done_batch b) = n"
  shows "\<exists>target_q loss1 loss2.
           targetQ N cfg self next_z nfa b = Inr target_q
         \<and> length target_q = n
         \<and> (\<forall>i<n. target_q ! i =
                last (reward_batch b ! i)
                + (1 - last (done_batch b ! i)) * discount cfg
                  * (min (next_q1 ! i) (next_q2 ! i) - alpha self * next_log_pi ! i))
         \<and> mse_loss curr_q1 target_q = Inr loss1
         \<and> mse_loss curr_q2 target_q = Inr loss2
         \<and> critic_loss = loss1 + loss2"
proof -
  from updateSLAC_Inr [OF upd] obtain z' next_z' fa' nfa' target_q last_action loss1 loss2 where
    post': "posterior N (latent_params self) b = Inr (z', next_z', fa', nfa')"
    and tq: "targetQ N cfg self next_z' nfa' b = Inr target_q"
    and la: "lastStep (action_batch b) = Inr last_action"
    and l1: "mse_loss (fst (q_values N (critic_params self) z' last_action)) target_q = Inr loss1"
    and l2: "mse_loss (snd (q_values N (critic_params self) z' last_action)) target_q = Inr loss2"
    and cl: "critic_loss = loss1 + loss2"
    by (elim exE conjE)
  from post post' have eq: "z' = z" "next_z' = next_z" "nfa' = nfa" by simp_all
  have la': "last_action = map last (action_batch b)" by (rule lastStep_Inr [OF la])
  from targetQ_nth [OF tq [unfolded eq] s q len]
  have t: "length target_q = n"
    "\<forall>i<n. target_q ! i =
                last (reward_batch b ! i)
                + (1 - last (done_batch b ! i)) * discount cfg
                  * (min (next_q1 ! i) (next_q2 ! i) - alpha self * next_log_pi ! i)"
    by simp_all
  from l1 l2 have "mse_loss curr_q1 target_q = Inr loss1" "mse_loss curr_q2 target_q = Inr loss2"
    unfolding eq la' c by simp_all
  with tq [unfolded eq] t cl show ?thesis by blast
qed

theorem updateSLAC_td_target_witness:
  "updateSLAC test_numerics test_config test_trainer test_batch
     = Inr (test_trainer\<lparr>critic_params := [[2, 3], [4]], actor_params := [[1]],
              log_alpha := 0, alpha := 1,
              trace := [OptimizerStep CriticOpt, OptimizerStep ActorOpt, OptimizerStep AlphaOpt]\<rparr>,
            [3/2, 3/2], (- 1, 7, 0, - (3/2)))
   \<and> targetQ test_numerics test_config test_trainer [[0], [0]] [[0], [0]] test_batch = Inr [2, 2]
   \<and> mse_loss [3, 5] [2, 2] = Inr 5 \<and> mse_loss [4, 2] [2, 2] = Inr 2"
proof -
  have post: "posterior test_numerics (latent_params test_trainer) test_batch
                = Inr ([[0], [0]], [[0], [0]], [[0], [0]], [[0], [0]])"
    by (simp add: test_numerics_def)
  have s: "actor_sample test_numerics (actor_params test_trainer) [[0], [0]]
             = ([[0, 0, 0, 0, 0], [0, 0, 0, 0, 0]], [1, 2])"
    by (simp add: test_numerics_def)
  have q: "q_values test_numerics (critic_target_params test_trainer) [[0], [0]]
             [[0, 0, 0, 0, 0], [0, 0, 0, 0, 0]] = ([3, 5], [4, 2])"
    by (simp add: test_numerics_def)
  have c: "q_values test_numerics (critic_params test_trainer) [[0], [0]]
             (map last (action_batch test_batch)) = ([3, 5], [4, 2])"
    by (simp add: test_numerics_def)
  have len: "length [3, 5::real] = 2" "length [4, 2::real] = 2" "length [1, 2::real] = 2"
    "length (reward_batch test_batch) = 2" "length (done_batch test_batch) = 2"
    by (simp_all add: test_batch_def)
  from updateSLAC_td_target [OF test_updateSLAC post s q c len]
  obtain target_q loss1 loss2 where
    tq: "targetQ test_numerics test_config test_trainer [[0], [0]] [[0], [0]] test_batch
           = Inr target_q"
    and l: "length target_q = 2"
    and f: "\<forall>i<2. target_q ! i =
                last (reward_batch test_batch ! i)
                + (1 - last (done_batch test_batch ! i)) * discount test_config
                  * (min ([3, 5] ! i) ([4, 2] ! i) - alpha test_trainer * [1, 2] ! i)"
    and m: "mse_loss [3, 5] target_q = Inr loss1" "mse_loss [4, 2] target_q = Inr loss2"
    and cl: "(7::real) = loss1 + loss2"
    by blast
  from f have "target_q ! 0 = 2" "target_q ! 1 = 2"
    by (simp_all add: test_batch_def test_config_def test_trainer_def)
  with l have t: "target_q = [2, 2]"
    by (intro nth_equalityI) (auto simp: less_Suc_eq numeral_2_eq_2)
  have "mse_loss [3, 5] [2, 2] = Inr 5" "mse_loss [4, 2] [2, 2] = Inr 2"
    by (simp_all add: mse_loss_def broadcast2_def mean_def power2_eq_square)
  with tq t test_updateSLAC show ?thesis by simp
qed

section \<open>Properties of continuousUpdateWeights\<close>

lemma pretraining_frame_iff:
  "pretraining_frame m m' \<longleftrightarrow>
     actor_params (obj m') = actor_params (obj m)
   \<and> critic_params (obj m') = critic_params (obj m)
   \<and> critic_target_params (obj m') = critic_target_params (obj m)
   \<and> log_alpha (obj m') = log_alpha (obj m)
   \<and> alpha (obj m') = alpha (obj m)
   \<and> actor_lr (obj m') = actor_lr (obj m)
   \<and> critic_lr (obj m') = critic_lr (obj m)
   \<and> training_step (obj m') = training_step (obj m)
   \<and> (\<exists>evs. trace (obj m') = trace (obj m) @ evs \<and> list_all latent_only evs)"
  (is "?l \<longleftrightarrow> ?r")
proof
  assume ?l
  then show ?r unfolding pretraining_frame_def by blast
next
  assume r: ?r
  then obtain evs where e: "trace (obj m') = trace (obj m) @ evs" "list_all latent_only evs"
    by blast
  then have "new_events m m' = evs" by (simp add: new_events_def)
  with r e show ?l unfolding pretraining_frame_def by simp
qed

lemma pretraining_frame_refl: "pretraining_frame m m"
  by (simp add: pretraining_frame_iff)

lemma pretraining_frame_trans:
  assumes "pretraining_frame m m'" and "pretraining_frame m' m''"
  shows "pretraining_frame m m''"
proof -
  from assms(1) obtain e1 where
    e1: "trace (obj m') = trace (obj m) @ e1" "list_all latent_only e1"
    unfolding pretraining_frame_iff by blast
  from assms(2) obtain e2 where
    e2: "trace (obj m'') = trace (obj m') @ e2" "list_all latent_only e2"
    unfolding pretraining_frame_iff by blast
  have "trace (obj m'') = trace (obj m) @ (e1 @ e2)" "list_all latent_only (e1 @ e2)"
    using e1 e2 by simp_all
  then have "\<exists>evs. trace (obj m'') = trace (obj m) @ evs \<and> list_all latent_only evs"
    by blast
  with assms show ?thesis unfolding pretraining_frame_iff by simp
qed

lemma step_PreInit:
  "pc m = PreInit \<Longrightarrow> step N cfg i m =
   (goto PreTop (emit [ResetEnvs, SampleLatentRemote] m))"
  by (simp add: step_def)

lemma step_PreTop:
  "pc m = PreTop \<Longrightarrow> step N cfg i m =
   (if pre_training_step (obj m) < pretraining_steps cfg \<and> \<not> terminate i
          then goto PreFetch m else goto PolInit m)"
  by (simp add: step_def)

lemma step_PreFetch:
  "pc m = PreFetch \<Longrightarrow> step N cfg i m =
   (goto PreUpdateLatent (emit [RayGetBatch, SampleLatentRemote] (m\<lparr>cur_batch := sampled i\<rparr>)))"
  by (simp add: step_def)

lemma step_PreUpdateLatent:
  "pc m = PreUpdateLatent \<Longrightarrow> step N cfg i m =
   ((case updateLatent N (obj m) (cur_batch m) of
             (self', l) \<Rightarrow> goto PreUpdateAlign (m\<lparr>obj := self', latent_loss := l\<rparr>)))"
  by (simp add: step_def)

lemma step_PreUpdateAlign:
  "pc m = PreUpdateAlign \<Longrightarrow> step N cfg i m =
   ((case updateLatentAlign N (obj m) (cur_batch m) of
             (self', l) \<Rightarrow> goto PreSetInfo (m\<lparr>obj := self'\<rparr>)))"
  by (simp add: step_def)

lemma step_PreSetInfo:
  "pc m = PreSetInfo \<Longrightarrow> step N cfg i m =
   (goto PreLog (emit [SetInfoPretrainingStep (pre_training_step (obj m))] m))"
  by (simp add: step_def)

lemma step_PreLog:
  "pc m = PreLog \<Longrightarrow> step N cfg i m =
   (goto PreIncr (emit [UpdateScalars] m))"
  by (simp add: step_def)

lemma step_PreIncr:
  "pc m = PreIncr \<Longrightarrow> step N cfg i m =
   (goto PreTop (m\<lparr>obj := (obj m)\<lparr>pre_training_step := pre_training_step (obj m) + 1\<rparr>\<rparr>))"
  by (simp add: step_def)

lemma step_PolInit:
  "pc m = PolInit \<Longrightarrow> step N cfg i m =
   (goto PolTop (emit [SampleRemote] m))"
  by (simp add: step_def)

lemma step_PolTop:
  "pc m = PolTop \<Longrightarrow> step N cfg i m =
   (if training_step (obj m) < training_steps cfg \<and> \<not> terminate i
          then goto PolPause m else goto Returned m)"
  by (simp add: step_def)

lemma step_PolPause:
  "pc m = PolPause \<Longrightarrow> step N cfg i m =
   (if pause_training i then goto PolTop (emit [Sleep] m) else goto PolStepAsync m)"
  by (simp add: step_def)

lemma step_PolStepAsync:
  "pc m = PolStepAsync \<Longrightarrow> step N cfg i m =
   (goto PolFetch (emit [StepEnvsAsync] m))"
  by (simp add: step_def)

lemma step_PolFetch:
  "pc m = PolFetch \<Longrightarrow> step N cfg i m =
   (goto PolUpdateLatent (emit [RayGetBatch, SampleRemote] (m\<lparr>cur_batch := sampled i\<rparr>)))"
  by (simp add: step_def)

lemma step_PolUpdateLatent:
  "pc m = PolUpdateLatent \<Longrightarrow> step N cfg i m =
   ((case updateLatent N (obj m) (cur_batch m) of
             (self', l) \<Rightarrow> goto PolUpdateAlign (m\<lparr>obj := self', latent_loss := l\<rparr>)))"
  by (simp add: step_def)

lemma step_PolUpdateAlign:
  "pc m = PolUpdateAlign \<Longrightarrow> step N cfg i m =
   ((case updateLatentAlign N (obj m) (cur_batch m) of
             (self', l) \<Rightarrow> goto PolUpdateSLAC (m\<lparr>obj := self'\<rparr>)))"
  by (simp add: step_def)

lemma step_PolUpdateSLAC:
  "pc m = PolUpdateSLAC \<Longrightarrow> step N cfg i m =
   ((case updateSLAC N cfg (obj m) (cur_batch m) of
             Inl e \<Rightarrow> goto (Raised e) m
           | Inr (self', td_error, l) \<Rightarrow> goto PolIncr (m\<lparr>obj := self', loss := l\<rparr>)))"
  by (simp add: step_def)

lemma step_PolIncr:
  "pc m = PolIncr \<Longrightarrow> step N cfg i m =
   (goto PolStepWait (m\<lparr>obj := (obj m)\<lparr>training_step := training_step (obj m) + 1\<rparr>\<rparr>))"
  by (simp add: step_def)

lemma step_PolStepWait:
  "pc m = PolStepWait \<Longrightarrow> step N cfg i m =
   (goto PolTarget (emit [StepEnvsWait] m))"
  by (simp add: step_def)

lemma step_PolTarget:
  "pc m = PolTarget \<Longrightarrow> step N cfg i m =
   ((case softTargetUpdate cfg (obj m) of
             Inl e \<Rightarrow> goto (Raised e) m
           | Inr self' \<Rightarrow> goto PolLrDecay (emit [TargetUpdate] (m\<lparr>obj := self'\<rparr>))))"
  by (simp add: step_def)

lemma step_PolLrDecay:
  "pc m = PolLrDecay \<Longrightarrow> step N cfg i m =
   (if training_step (obj m) > 0
          then if lr_decay_interval cfg = 0 then goto (Raised ZeroDivision) m
               else if training_step (obj m) mod lr_decay_interval cfg = 0
                    then goto PolCheckpoint
                           (emit [SchedulerStep ActorOpt, SchedulerStep CriticOpt]
                              (m\<lparr>obj := (obj m)\<lparr>actor_lr := actor_lr (obj m) * lr_decay cfg,
                                     critic_lr := critic_lr (obj m) * lr_decay cfg\<rparr>\<rparr>))
                    else goto PolCheckpoint m
          else goto PolCheckpoint m)"
  by (simp add: step_def)

lemma step_PolCheckpoint:
  "pc m = PolCheckpoint \<Longrightarrow> step N cfg i m =
   (if checkpoint_interval cfg = 0 then goto (Raised ZeroDivision) m
          else if training_step (obj m) mod checkpoint_interval cfg = 0
               then goto PolSetInfo
                      (emit (SetInfoWeights # (if save_model cfg then [SaveCheckpoint] else [])) m)
               else goto PolSetInfo m)"
  by (simp add: step_def)

lemma step_PolSetInfo:
  "pc m = PolSetInfo \<Longrightarrow> step N cfg i m =
   (if training_step (obj m) > 0 \<and> eval_interval cfg = 0 then goto (Raised ZeroDivision) m
          else goto PolLogScalars
                 (emit [SetInfoTrainingStep (training_step (obj m))
                          (training_step (obj m) > 0
                           \<and> training_step (obj m) mod eval_interval cfg = 0)] m))"
  by (simp add: step_def)

lemma step_PolLogScalars:
  "pc m = PolLogScalars \<Longrightarrow> step N cfg i m =
   (goto PolLogStep (emit [UpdateScalars] m))"
  by (simp add: step_def)

lemma step_PolLogStep:
  "pc m = PolLogStep \<Longrightarrow> step N cfg i m =
   (goto PolTop (emit [LogTrainingStep] m))"
  by (simp add: step_def)

lemma step_Returned:
  "pc m = Returned \<Longrightarrow> step N cfg i m =
   (m)"
  by (simp add: step_def)

lemma step_Raised:
  "pc m = Raised e \<Longrightarrow> step N cfg i m =
   (m)"
  by (simp add: step_def)

lemma pretraining_step:
  assumes "pretraining (pc m)"
  shows "pretraining_frame m (step N cfg i m)
       \<and> (pretraining (pc (step N cfg i m)) \<or> pc (step N cfg i m) = PolInit)"
proof -
  from assms consider "pc m = PreInit" | "pc m = PreTop" | "pc m = PreFetch" | "pc m = PreUpdateLatent" | "pc m = PreUpdateAlign" | "pc m = PreSetInfo" | "pc m = PreLog" | "pc m = PreIncr"
    by (auto simp: pretraining_def)
  then show ?thesis
  proof cases
    case 1
    then show ?thesis
      by (simp add: step_PreInit pretraining_frame_iff pretraining_def emit_def goto_def
          updateLatent_def updateLatentAlign_def latent_only_def split: prod.splits)
  next
    case 2
    then show ?thesis
      by (simp add: step_PreTop pretraining_frame_iff pretraining_def emit_def goto_def
          updateLatent_def updateLatentAlign_def latent_only_def split: prod.splits)
  next
    case 3
    then show ?thesis
      by (simp add: step_PreFetch pretraining_frame_iff pretraining_def emit_def goto_def
          updateLatent_def updateLatentAlign_def latent_only_def split: prod.splits)
  next
    case 4
    then show ?thesis
      by (simp add: step_PreUpdateLatent pretraining_frame_iff pretraining_def emit_def goto_def
          updateLatent_def updateLatentAlign_def latent_only_def split: prod.splits)
  next
    case 5
    then show ?thesis
      by (simp add: step_PreUpdateAlign pretraining_frame_iff pretraining_def emit_def goto_def
          updateLatent_def updateLatentAlign_def latent_only_def split: prod.splits)
  next
    case 6
    then show ?thesis
      by (simp add: step_PreSetInfo pretraining_frame_iff pretraining_def emit_def goto_def
          updateLatent_def updateLatentAlign_def latent_only_def split: prod.splits)
  next
    case 7
    then show ?thesis
      by (simp add: step_PreLog pretraining_frame_iff pretraining_def emit_def goto_def
          updateLatent_def updateLatentAlign_def latent_only_def split: prod.splits)
  next
    case 8
    then show ?thesis
      by (simp add: step_PreIncr pretraining_frame_iff pretraining_def emit_def goto_def
          updateLatent_def updateLatentAlign_def latent_only_def split: prod.splits)
  qed
qed

lemma not_pretraining_step:
  assumes "\<not> pretraining (pc m)"
  shows "\<not> pretraining (pc (step N cfg i m)) \<and> pc (step N cfg i m) \<noteq> PolInit"
proof (cases "pc m")
  case PreInit
  with assms show ?thesis by (simp add: pretraining_def)
next
  case PreTop
  with assms show ?thesis by (simp add: pretraining_def)
next
  case PreFetch
  with assms show ?thesis by (simp add: pretraining_def)
next
  case PreUpdateLatent
  with assms show ?thesis by (simp add: pretraining_def)
next
  case PreUpdateAlign
  with assms show ?thesis by (simp add: pretraining_def)
next
  case PreSetInfo
  with assms show ?thesis by (simp add: pretraining_def)
next
  case PreLog
  with assms show ?thesis by (simp add: pretraining_def)
next
  case PreIncr
  with assms show ?thesis by (simp add: pretraining_def)
next
  case PolInit
  then show ?thesis
    by (simp add: step_PolInit pretraining_def emit_def goto_def split: prod.splits sum.splits)
next
  case PolTop
  then show ?thesis
    by (simp add: step_PolTop pretraining_def emit_def goto_def split: prod.splits sum.splits)
next
  case PolPause
  then show ?thesis
    by (simp add: step_PolPause pretraining_def emit_def goto_def split: prod.splits sum.splits)
next
  case PolStepAsync
  then show ?thesis
    by (simp add: step_PolStepAsync pretraining_def emit_def goto_def split: prod.splits sum.splits)
next
  case PolFetch
  then show ?thesis
    by (simp add: step_PolFetch pretraining_def emit_def goto_def split: prod.splits sum.splits)
next
  case PolUpdateLatent
  then show ?thesis
    by (simp add: step_PolUpdateLatent pretraining_def emit_def goto_def split: prod.splits sum.splits)
next
  case PolUpdateAlign
  then show ?thesis
    by (simp add: step_PolUpdateAlign pretraining_def emit_def goto_def split: prod.splits sum.splits)
next
  case PolUpdateSLAC
  then show ?thesis
    by (simp add: step_PolUpdateSLAC pretraining_def emit_def goto_def split: prod.splits sum.splits)
next
  case PolIncr
  then show ?thesis
    by (simp add: step_PolIncr pretraining_def emit_def goto_def split: prod.splits sum.splits)
next
  case PolStepWait
  then show ?thesis
    by (simp add: step_PolStepWait pretraining_def emit_def goto_def split: prod.splits sum.splits)
next
  case PolTarget
  then show ?thesis
    by (simp add: step_PolTarget pretraining_def emit_def goto_def split: prod.splits sum.splits)
next
  case PolLrDecay
  then show ?thesis
    by (simp add: step_PolLrDecay pretraining_def emit_def goto_def split: prod.splits sum.splits)
next
  case PolCheckpoint
  then show ?thesis
    by (simp add: step_PolCheckpoint pretraining_def emit_def goto_def split: prod.splits sum.splits)
next
  case PolSetInfo
  then show ?thesis
    by (simp add: step_PolSetInfo pretraining_def emit_def goto_def split: prod.splits sum.splits)
next
  case PolLogScalars
  then show ?thesis
    by (simp add: step_PolLogScalars pretraining_def emit_def goto_def split: prod.splits sum.splits)
next
  case PolLogStep
  then show ?thesis
    by (simp add: step_PolLogStep pretraining_def emit_def goto_def split: prod.splits sum.splits)
next
  case Returned
  then show ?thesis
    by (simp add: step_Returned pretraining_def emit_def goto_def split: prod.splits sum.splits)
next
  case (Raised e)
  then show ?thesis
    by (simp add: step_Raised pretraining_def emit_def goto_def split: prod.splits sum.splits)
qed

lemma pretraining_back:
  assumes "pretraining (pc (step N cfg i m)) \<or> pc (step N cfg i m) = PolInit"
  shows "pretraining (pc m)"
  using assms not_pretraining_step [of m N cfg i] by blast

text \<open>
  Claim C8.  Through the whole pretraining phase of \<open>continuousUpdateWeights\<close>, that is
  in every state reached from a pretraining program point that is still in the
  pretraining loop or has just left it for the policy loop, the parameters of actor,
  critic and target critic, the temperature and the learning rates are what they were,
  and no call made so far is an optimizer step of actor, critic or temperature, a
  scheduler step or a target update: only the latent optimizer has been stepped.
\<close>

theorem pretraining_updates_latent_only:
  assumes "pretraining (pc m)"
    and "pretraining (pc (run N cfg inp n m)) \<or> pc (run N cfg inp n m) = PolInit"
  shows "pretraining_frame m (run N cfg inp n m)"
  using assms(2)
proof (induction n)
  case 0
  show ?case by (simp add: pretraining_frame_refl)
next
  case (Suc n)
  from Suc.prems have before: "pretraining (pc (run N cfg inp n m))"
    by (simp add: pretraining_back)
  then have "pretraining_frame m (run N cfg inp n m)" by (simp add: Suc.IH)
  moreover from pretraining_step [OF before]
  have "pretraining_frame (run N cfg inp n m) (run N cfg inp (Suc n) m)" by simp
  ultimately show ?case by (rule pretraining_frame_trans)
qed


lemma test_pretrain_run:
  "run test_numerics test_config test_input 9 test_machine =
     \<lparr>obj = test_trainer\<lparr>latent_params := [[3]], pre_training_step := 1,
              trace := [ResetEnvs, SampleLatentRemote, RayGetBatch, SampleLatentRemote,
                        OptimizerStep LatentOpt, LogLatentLosses, OptimizerStep LatentOpt,
                        SetInfoPretrainingStep 0, UpdateScalars]\<rparr>,
      pc = PolInit, cur_batch = test_batch, latent_loss = 15, loss = (0, 0, 0, 0)\<rparr>"
  by (simp add: eval_nat_numeral step_def emit_def goto_def updateLatent_def updateLatentAlign_def
      test_machine_def test_input_def test_numerics_def test_config_def test_trainer_def)

theorem pretraining_updates_latent_only_witness:
  "pretraining (pc test_machine)
   \<and> pc (run test_numerics test_config test_input 9 test_machine) = PolInit
   \<and> pretraining_frame test_machine (run test_numerics test_config test_input 9 test_machine)
   \<and> latent_params (obj (run test_numerics test_config test_input 9 test_machine)) = [[3]]
   \<and> latent_params (obj test_machine) = [[0]]"
proof -
  have a: "pretraining (pc test_machine)"
    by (simp add: pretraining_def test_machine_def)
  have b: "pc (run test_numerics test_config test_input 9 test_machine) = PolInit"
    by (simp add: test_pretrain_run)
  from pretraining_updates_latent_only [OF a, of test_numerics test_config test_input 9] b
  have "pretraining_frame test_machine (run test_numerics test_config test_input 9 test_machine)"
    by simp
  moreover have "latent_params (obj (run test_numerics test_config test_input 9 test_machine))
                   = [[3]]"
    by (simp add: test_pretrain_run)
  moreover have "latent_params (obj test_machine) = [[0]]"
    by (simp add: test_machine_def test_trainer_def)
  ultimately show ?thesis using a b by blast
qed























lemma made_goto [simp]: "made m (goto p m1) ks = made m m1 ks"
  by (simp add: made_def new_events_def goto_def)

lemma pc_goto [simp]: "pc (goto p m) = p"
  by (simp add: goto_def)























end
